theory Spec2Isabelle
  imports Complex_Main
begin

section \<open>Python values and the library functions used by routes.py\<close>

text \<open>
  The signal generator of \<^verbatim>\<open>routes.py\<close> builds a list of dictionaries whose values
  are floats, ints, bools, strings and nested dictionaries. A dictionary literal is an
  association list in the order the source writes its keys.

  Python floats are modelled by \<^typ>\<open>real\<close> with exact arithmetic: \<open>*\<close>, \<open>/\<close>, \<open>+\<close>
  and \<open>-\<close> are the field operations, without the rounding of IEEE 754 doubles. The
  integer literals of the price table (67000, 3400, 145) are promoted to float by the
  multiplication that follows their lookup, so the table holds reals.
\<close>

datatype pyval =
    PyFloat real
  | PyInt int
  | PyBool bool
  | PyStr string
  | PyDict "(string \<times> pyval) list"
  | PyList "pyval list"

datatype error = ZeroDivisionError | KeyError string

text \<open>\<^verbatim>\<open>d[k]\<close> on a dictionary value; the first binding of a key wins.\<close>

fun dict_get :: "pyval \<Rightarrow> string \<Rightarrow> pyval option" where
  "dict_get (PyDict kvs) k = map_of kvs k"
| "dict_get _ k = None"

fun is_number :: "pyval option \<Rightarrow> bool" where
  "is_number (Some (PyFloat x)) = True"
| "is_number (Some (PyInt n)) = True"
| "is_number _ = False"

fun is_string :: "pyval option \<Rightarrow> bool" where
  "is_string (Some (PyStr s)) = True"
| "is_string _ = False"

text \<open>Chained subscripts, as in \<^verbatim>\<open>signal['bybit_settings']['qty']\<close>.\<close>

fun dict_path :: "pyval \<Rightarrow> string list \<Rightarrow> pyval option" where
  "dict_path v [] = Some v"
| "dict_path v (k # ks) = (case dict_get v k of None \<Rightarrow> None | Some w \<Rightarrow> dict_path w ks)"

text \<open>\<^verbatim>\<open>int(x)\<close> on a float truncates towards zero.\<close>

definition py_int :: "real \<Rightarrow> int" where
  "py_int x = (if 0 \<le> x then \<lfloor>x\<rfloor> else \<lceil>x\<rceil>)"

text \<open>
  \<^verbatim>\<open>round(x, n)\<close> on a float: the nearest multiple of \<open>10^-n\<close>, a tie going to the
  even one.
\<close>

definition round_half_even :: "real \<Rightarrow> int" where
  "round_half_even x =
     (let f = \<lfloor>x\<rfloor>; d = x - of_int f
      in if d < 1 / 2 then f
         else if 1 / 2 < d then f + 1
         else if even f then f else f + 1)"

definition py_round :: "real \<Rightarrow> nat \<Rightarrow> real" where
  "py_round x n = of_int (round_half_even (x * 10 ^ n)) / 10 ^ n"

text \<open>
  \<^verbatim>\<open>str\<close> of an int and of a float. For a float this is the positional notation
  that \<^verbatim>\<open>repr\<close> uses for a finite decimal of magnitude in \<open>[1e-4, 1e16)\<close> (and for
  zero): the integer part, a point, and the fractional digits with at least one digit
  and no trailing zero. Every float the generator formats has been rounded to at most
  four decimals or is a constant.
\<close>

definition digit_char :: "nat \<Rightarrow> char" where
  "digit_char d = ''0123456789'' ! (d mod 10)"

fun str_nat :: "nat \<Rightarrow> string" where
  "str_nat n = (if n < 10 then [digit_char n] else str_nat (n div 10) @ [digit_char n])"

declare str_nat.simps [simp del]

definition py_str_int :: "int \<Rightarrow> string" where
  "py_str_int n = (if n < 0 then ''-'' @ str_nat (nat (- n)) else str_nat (nat n))"

fun frac_digits :: "nat \<Rightarrow> real \<Rightarrow> string" where
  "frac_digits n x =
     (if n = 0 \<or> x = 0 then []
      else let d = \<lfloor>x * 10\<rfloor> in digit_char (nat d) # frac_digits (n - 1) (x * 10 - of_int d))"

declare frac_digits.simps [simp del]

definition py_str_float :: "real \<Rightarrow> string" where
  "py_str_float x =
     (let a = \<bar>x\<bar>; ds = frac_digits 17 (a - of_int \<lfloor>a\<rfloor>)
      in (if x < 0 then ''-'' else '''') @ str_nat (nat \<lfloor>a\<rfloor>) @ ''.'' @
         (if ds = [] then ''0'' else ds))"

section \<open>The random source\<close>

text \<open>
  The generator calls \<^verbatim>\<open>random.uniform(a, b)\<close> and \<^verbatim>\<open>random.choice(seq)\<close> of the
  module-level generator, whose hidden state every call advances. The source of
  randomness is a parameter here: the two functions, over a state \<open>'s\<close> that is passed
  along explicitly.
\<close>

record 's rng =
  uniform :: "real \<Rightarrow> real \<Rightarrow> 's \<Rightarrow> real \<times> 's"
  choice :: "string list \<Rightarrow> 's \<Rightarrow> string \<times> 's"

text \<open>
  What the library documents of the two functions: \<^verbatim>\<open>uniform(a, b)\<close> returns a
  number between its bounds, \<^verbatim>\<open>choice(seq)\<close> an element of a non-empty sequence.
\<close>

definition uniform_in_range :: "'s rng \<Rightarrow> bool" where
  "uniform_in_range R \<longleftrightarrow>
     (\<forall>a b s. a \<le> b \<longrightarrow> a \<le> fst (uniform R a b s) \<and> fst (uniform R a b s) \<le> b)"

definition choice_in_seq :: "'s rng \<Rightarrow> bool" where
  "choice_in_seq R \<longleftrightarrow> (\<forall>xs s. xs \<noteq> [] \<longrightarrow> fst (choice R xs s) \<in> set xs)"

section \<open>generate_mock_signals\<close>

definition symbols :: "string list" where
  "symbols = [''ADA'', ''BTC'', ''ETH'', ''SOL'', ''LINK'', ''AVAX'']"

definition base_prices :: "string \<rightharpoonup> real" where
  "base_prices = map_of
     [(''ADA'', 0.55), (''BTC'', 67000), (''ETH'', 3400),
      (''SOL'', 145), (''LINK'', 13.2), (''AVAX'', 35.5)]"

text \<open>
  The local variables of one iteration of the loop, after line 92 of the source: the
  values the dictionary literal is built from.
\<close>

record trade =
  t_index :: nat
  t_symbol :: string
  t_price :: real
  t_confidence :: real
  t_action :: string
  t_leverage :: int
  t_risk_amount :: real
  t_position_value :: real
  t_qty :: real
  t_stop_loss :: real
  t_take_profit :: real

text \<open>
  Lines 70 to 92: the table lookup, the three draws in the order the source makes them
  (no \<^verbatim>\<open>choice\<close> is drawn for index 0), and the trading parameters. The lookup raises
  \<^verbatim>\<open>KeyError\<close> on a missing symbol and the division \<^verbatim>\<open>ZeroDivisionError\<close> on a zero
  price.
\<close>

definition trade_params :: "'s rng \<Rightarrow> nat \<Rightarrow> string \<Rightarrow> 's \<Rightarrow> (error + trade) \<times> 's" where
  "trade_params R i symbol s0 =
     (case base_prices symbol of
        None \<Rightarrow> (Inl (KeyError symbol), s0)
      | Some base \<Rightarrow>
          let (u, s1) = uniform R (- 0.02) 0.02 s0;
              price = base * (1 + u);
              (confidence, s2) = uniform R 85 98 s1;
              (action, s3) = (if i = 0 then (''SELL'', s2) else choice R [''BUY'', ''SELL''] s2);
              leverage = min (8 + py_int (confidence - 85)) 15;
              risk_amount = 50.0;
              position_value = 500.0 * (risk_amount / 100)
          in if price = 0 then (Inl ZeroDivisionError, s3)
             else
               let qty = (if symbol = ''BTC'' then position_value / price
                          else if symbol = ''ETH'' then position_value / price
                          else (position_value * of_int leverage) / price);
                   stop_loss = price * (if action = ''SELL'' then 1.03 else 0.97);
                   take_profit = price * (if action = ''SELL'' then 0.94 else 1.06)
               in (Inr \<lparr>t_index = i, t_symbol = symbol, t_price = price,
                         t_confidence = confidence, t_action = action,
                         t_leverage = leverage, t_risk_amount = risk_amount,
                         t_position_value = position_value, t_qty = qty,
                         t_stop_loss = stop_loss, t_take_profit = take_profit\<rparr>, s3))"

text \<open>Lines 94 to 131: the dictionary literal.\<close>

definition signal_dict :: "trade \<Rightarrow> pyval" where
  "signal_dict t = PyDict
     [(''symbol'', PyStr (t_symbol t)),
      (''action'', PyStr (t_action t)),
      (''confidence'', PyFloat (py_round (t_confidence t) 2)),
      (''entry_price'', PyFloat (py_round (t_price t) 4)),
      (''stop_loss'', PyFloat (py_round (t_stop_loss t) 4)),
      (''take_profit'', PyFloat (py_round (t_take_profit t) 4)),
      (''leverage'', PyInt (t_leverage t)),
      (''expected_return'', PyFloat 6.0),
      (''risk_reward_ratio'', PyFloat 2.0),
      (''time_horizon'', PyStr ''4H''),
      (''strategy_basis'', PyStr ''Momentum Volume Analysis''),
      (''is_primary_trade'', PyBool (t_index t = 0)),
      (''trade_label'', PyStr (if t_index t = 0 then ''YOUR TRADE'' else ''ALTERNATIVE'')),
      (''bybit_settings'', PyDict
        [(''symbol'', PyStr (t_symbol t @ ''USDT'')),
         (''side'', PyStr (t_action t)),
         (''orderType'', PyStr ''Market''),
         (''qty'', PyStr (py_str_float (py_round (t_qty t) 4))),
         (''leverage'', PyStr (py_str_int (t_leverage t))),
         (''stopLoss'', PyStr (py_str_float (py_round (t_stop_loss t) 4))),
         (''takeProfit'', PyStr (py_str_float (py_round (t_take_profit t) 4))),
         (''timeInForce'', PyStr ''GTC''),
         (''marginMode'', PyStr ''isolated''),
         (''risk_management'', PyDict
           [(''risk_amount_usd'', PyStr (py_str_float (t_risk_amount t))),
            (''risk_percentage'', PyStr (py_str_float ((t_risk_amount t / 500) * 100) @ ''%'')),
            (''position_value_usd'',
               PyStr (py_str_float (py_round (t_position_value t * of_int (t_leverage t)) 2))),
            (''margin_required_usd'', PyStr (py_str_float (py_round (t_position_value t) 2)))]),
         (''execution_notes'', PyDict
           [(''entry_strategy'', PyStr ''Market order for immediate execution''),
            (''position_monitoring'', PyStr ''Monitor for 4-8 hours based on momentum''),
            (''stop_loss_type'', PyStr ''Stop-market order''),
            (''take_profit_type'', PyStr ''Limit order'')])])]"

text \<open>
  The loop over \<^verbatim>\<open>enumerate(symbols)\<close>: each iteration appends its dictionary; an
  exception leaves the loop at once.
\<close>

fun signals_loop ::
  "'s rng \<Rightarrow> (nat \<times> string) list \<Rightarrow> pyval list \<Rightarrow> 's \<Rightarrow> (error + pyval list) \<times> 's" where
  "signals_loop R [] signals s = (Inr signals, s)"
| "signals_loop R ((i, symbol) # rest) signals s =
     (case trade_params R i symbol s of
        (Inl e, s') \<Rightarrow> (Inl e, s')
      | (Inr t, s') \<Rightarrow> signals_loop R rest (signals @ [signal_dict t]) s')"

definition generate_mock_signals :: "'s rng \<Rightarrow> 's \<Rightarrow> (error + pyval list) \<times> 's" where
  "generate_mock_signals R s = signals_loop R (enumerate 0 symbols) [] s"

text \<open>
  The same loop, keeping the local variables of each iteration instead of the
  dictionary built from them. The dictionaries show price, stop loss, take profit and
  quantity only after rounding; properties of the unrounded values are stated on this
  list, and \<open>generate_mock_signals\<close> is \<open>signal_dict\<close> mapped over it.
\<close>

fun trades_loop ::
  "'s rng \<Rightarrow> (nat \<times> string) list \<Rightarrow> trade list \<Rightarrow> 's \<Rightarrow> (error + trade list) \<times> 's" where
  "trades_loop R [] trades s = (Inr trades, s)"
| "trades_loop R ((i, symbol) # rest) trades s =
     (case trade_params R i symbol s of
        (Inl e, s') \<Rightarrow> (Inl e, s')
      | (Inr t, s') \<Rightarrow> trades_loop R rest (trades @ [t]) s')"

definition generate_trades :: "'s rng \<Rightarrow> 's \<Rightarrow> (error + trade list) \<times> 's" where
  "generate_trades R s = trades_loop R (enumerate 0 symbols) [] s"

section \<open>The handler of /api/signals\<close>

text \<open>
  \<^verbatim>\<open>get_trading_signals\<close> wraps the generator in \<^verbatim>\<open>try ... except Exception\<close>. Both
  exceptions of the model are subclasses of \<^verbatim>\<open>Exception\<close>, so the handler catches each
  of them, logs it and answers with an empty JSON array. \<^verbatim>\<open>jsonify\<close> belongs to the
  framework: the response is the value handed to it. The log is the list of records
  written so far, an error record holding the message prefix and the exception.
\<close>

datatype response = Jsonify pyval

datatype log_record = LogError string error

definition get_trading_signals ::
  "'s rng \<Rightarrow> 's \<times> log_record list \<Rightarrow> response \<times> 's \<times> log_record list" where
  "get_trading_signals R st =
     (case st of (s, records) \<Rightarrow>
        (case generate_mock_signals R s of
           (Inr signals, s') \<Rightarrow> (Jsonify (PyList signals), s', records)
         | (Inl e, s') \<Rightarrow>
             (Jsonify (PyList []), s', records @ [LogError ''Error getting signals: '' e])))"

section \<open>Random sources for the examples\<close>

text \<open>
  A source without state: \<^verbatim>\<open>uniform(a, b)\<close> returns the point at fraction \<open>r\<close> of the
  way from \<open>a\<close> to \<open>b\<close>, and \<^verbatim>\<open>choice(seq)\<close> the element at index \<open>k\<close> (modulo the
  length).
\<close>

definition fixed_rng :: "real \<Rightarrow> nat \<Rightarrow> unit rng" where
  "fixed_rng r k =
     \<lparr>uniform = (\<lambda>a b s. (a + (b - a) * r, s)),
      choice = (\<lambda>xs s. (xs ! (k mod length xs), s))\<rparr>"

text \<open>A source that breaks the contract of \<^verbatim>\<open>uniform\<close>: every draw is \<open>-1\<close>.\<close>

definition broken_rng :: "unit rng" where
  "broken_rng = \<lparr>uniform = (\<lambda>a b s. (- 1, s)), choice = (\<lambda>xs s. (hd xs, s))\<rparr>"

section \<open>The draws of one iteration\<close>

text \<open>
  Names for what an iteration started in state \<open>s\<close> draws: the price perturbation,
  the confidence and the action chosen when the index is not 0, each taken from the
  state its predecessor left, and the state the iteration ends in.
\<close>

definition draw_u :: "'s rng \<Rightarrow> 's \<Rightarrow> real" where
  "draw_u R s = fst (uniform R (- 0.02) 0.02 s)"

definition draw_c :: "'s rng \<Rightarrow> 's \<Rightarrow> real" where
  "draw_c R s = fst (uniform R 85 98 (snd (uniform R (- 0.02) 0.02 s)))"

definition draw_a :: "'s rng \<Rightarrow> 's \<Rightarrow> string" where
  "draw_a R s =
     fst (choice R [''BUY'', ''SELL''] (snd (uniform R 85 98 (snd (uniform R (- 0.02) 0.02 s)))))"

definition state_after :: "'s rng \<Rightarrow> nat \<Rightarrow> 's \<Rightarrow> 's" where
  "state_after R i s =
     (let s2 = snd (uniform R 85 98 (snd (uniform R (- 0.02) 0.02 s)))
      in if i = 0 then s2 else snd (choice R [''BUY'', ''SELL''] s2))"

text \<open>The local variables as a function of the index, the symbol, the price and the draws.\<close>

definition trade_of :: "nat \<Rightarrow> string \<Rightarrow> real \<Rightarrow> real \<Rightarrow> string \<Rightarrow> trade" where
  "trade_of i sy price c a =
     \<lparr>t_index = i, t_symbol = sy, t_price = price, t_confidence = c, t_action = a,
      t_leverage = min (8 + py_int (c - 85)) 15,
      t_risk_amount = 50, t_position_value = 250,
      t_qty = (if sy = ''BTC'' \<or> sy = ''ETH'' then 250 / price
               else (250 * of_int (min (8 + py_int (c - 85)) 15)) / price),
      t_stop_loss = price * (if a = ''SELL'' then 1.03 else 0.97),
      t_take_profit = price * (if a = ''SELL'' then 0.94 else 1.06)\<rparr>"

text \<open>\<open>iteration R (i, symbol) t\<close>: some iteration of the loop for this index and symbol ends with the locals \<open>t\<close>.\<close>

definition iteration :: "'s rng \<Rightarrow> nat \<times> string \<Rightarrow> trade \<Rightarrow> bool" where
  "iteration R p t \<longleftrightarrow> (\<exists>s s'. trade_params R (fst p) (snd p) s = (Inr t, s'))"

text \<open>The state of the random source when iteration \<open>k\<close> of a run started in \<open>s\<close> begins.\<close>

fun iter_state :: "'s rng \<Rightarrow> nat \<Rightarrow> 's \<Rightarrow> 's" where
  "iter_state R 0 s = s"
| "iter_state R (Suc k) s = state_after R k (iter_state R k s)"

text \<open>What the loop computes with \<open>fixed_rng r k\<close>, written out.\<close>

definition fixed_trades :: "real \<Rightarrow> nat \<Rightarrow> trade list" where
  "fixed_trades r k =
     (let u = - 0.02 + (0.02 - - 0.02) * r; c = 85 + (98 - 85) * r;
          a = [''BUY'', ''SELL''] ! (k mod 2)
      in [trade_of 0 ''ADA'' (0.55 * (1 + u)) c ''SELL'',
          trade_of 1 ''BTC'' (67000 * (1 + u)) c a,
          trade_of 2 ''ETH'' (3400 * (1 + u)) c a,
          trade_of 3 ''SOL'' (145 * (1 + u)) c a,
          trade_of 4 ''LINK'' (13.2 * (1 + u)) c a,
          trade_of 5 ''AVAX'' (35.5 * (1 + u)) c a])"

text \<open>One field of every dictionary of a list, in order.\<close>

definition field_values :: "string \<Rightarrow> pyval list \<Rightarrow> pyval option list" where
  "field_values k sigs = map (\<lambda>d. dict_get d k) sigs"

section \<open>One iteration\<close>

lemma trade_params_eq:
  assumes "base_prices sy = Some b"
  shows "trade_params R i sy s =
     (if b * (1 + draw_u R s) = 0 then (Inl ZeroDivisionError, state_after R i s)
      else (Inr (trade_of i sy (b * (1 + draw_u R s)) (draw_c R s)
                   (if i = 0 then ''SELL'' else draw_a R s)), state_after R i s))"
  unfolding trade_params_def draw_u_def draw_c_def draw_a_def state_after_def trade_of_def
  using assms
  apply (simp only: option.case Let_def case_prod_beta)
  apply (cases "i = 0")
   apply (simp_all only: if_True if_False fst_conv snd_conv)
   apply simp
  apply simp
  done


lemma base_prices_pos: "base_prices sy = Some b \<Longrightarrow> 0 < b"
  by (auto simp add: base_prices_def split: if_splits)

lemma symbols_cases:
  assumes "sy \<in> set symbols"
  obtains "sy = ''ADA''" | "sy = ''BTC''" | "sy = ''ETH''" | "sy = ''SOL''"
    | "sy = ''LINK''" | "sy = ''AVAX''"
  using assms unfolding symbols_def by auto

lemma base_prices_table:
  "base_prices ''ADA'' \<noteq> None" "base_prices ''BTC'' \<noteq> None" "base_prices ''ETH'' \<noteq> None"
  "base_prices ''SOL'' \<noteq> None" "base_prices ''LINK'' \<noteq> None" "base_prices ''AVAX'' \<noteq> None"
  by (simp_all add: base_prices_def)

lemma base_prices_defined: "sy \<in> set symbols \<Longrightarrow> base_prices sy \<noteq> None"
  by (erule symbols_cases) (simp_all only: base_prices_table not_False_eq_True)

lemma base_prices_symbols:
  assumes "sy \<in> set symbols" shows "\<exists>b. base_prices sy = Some b \<and> 0 < b"
  using base_prices_defined [OF assms] base_prices_pos by blast

lemma trade_params_Inr:
  assumes "trade_params R i sy s = (Inr t, s')"
  shows "\<exists>b. base_prices sy = Some b \<and> b * (1 + draw_u R s) \<noteq> 0 \<and>
     t = trade_of i sy (b * (1 + draw_u R s)) (draw_c R s)
           (if i = 0 then ''SELL'' else draw_a R s)"
proof (cases "base_prices sy")
  case None
  with assms show ?thesis by (simp add: trade_params_def)
next
  case (Some b)
  show ?thesis
  proof (cases "b * (1 + draw_u R s) = 0")
    case True
    have "fst (trade_params R i sy s) = Inl ZeroDivisionError"
      unfolding trade_params_eq [OF Some] using True by simp
    with assms show ?thesis by simp
  next
    case False
    have "fst (trade_params R i sy s) = Inr (trade_of i sy (b * (1 + draw_u R s)) (draw_c R s)
           (if i = 0 then ''SELL'' else draw_a R s))"
      unfolding trade_params_eq [OF Some] using False by simp
    with assms have "t = trade_of i sy (b * (1 + draw_u R s)) (draw_c R s)
           (if i = 0 then ''SELL'' else draw_a R s)" by simp
    with Some False show ?thesis by blast
  qed
qed

lemma draw_u_bounds:
  assumes "uniform_in_range R"
  shows "- 0.02 \<le> draw_u R s \<and> draw_u R s \<le> 0.02"
proof -
  have "(- 0.02 :: real) \<le> 0.02" by simp
  with assms show ?thesis unfolding uniform_in_range_def draw_u_def by blast
qed

lemma trade_params_succeeds:
  assumes "uniform_in_range R" and "sy \<in> set symbols"
  shows "\<exists>t s'. trade_params R i sy s = (Inr t, s')"
proof -
  obtain b where b: "base_prices sy = Some b" "0 < b"
    using base_prices_symbols [OF assms(2)] by blast
  have "- 0.02 \<le> draw_u R s" using draw_u_bounds [OF assms(1)] by blast
  then have "0 < 1 + draw_u R s" by simp
  with b(2) have "b * (1 + draw_u R s) \<noteq> 0" by simp
  then show ?thesis unfolding trade_params_eq [OF b(1)] by simp
qed


section \<open>The loop\<close>

lemma trades_loop_Inr:
  "trades_loop R ps acc s = (Inr ts, s') \<Longrightarrow>
     \<exists>new. ts = acc @ new \<and> list_all2 (iteration R) ps new"
proof (induction ps arbitrary: acc s)
  case Nil
  then show ?case by simp
next
  case (Cons p ps)
  obtain i sy where p: "p = (i, sy)" by (cases p)
  show ?case
  proof (cases "trade_params R i sy s")
    case (Pair r s1)
    show ?thesis
    proof (cases r)
      case (Inl e)
      with Cons.prems p Pair show ?thesis by simp
    next
      case (Inr t)
      with Cons.prems p Pair have "trades_loop R ps (acc @ [t]) s1 = (Inr ts, s')" by simp
      from Cons.IH [OF this] obtain new where
        new: "ts = (acc @ [t]) @ new" "list_all2 (iteration R) ps new" by blast
      have "iteration R p t" unfolding iteration_def p using Pair Inr by auto
      with new have "ts = acc @ (t # new) \<and> list_all2 (iteration R) (p # ps) (t # new)" by simp
      then show ?thesis by blast
    qed
  qed
qed

lemma signals_loop_trades_loop:
  "signals_loop R ps (map signal_dict acc) s =
     (case trades_loop R ps acc s of
        (Inl e, s') \<Rightarrow> (Inl e, s')
      | (Inr ts, s') \<Rightarrow> (Inr (map signal_dict ts), s'))"
proof (induction ps arbitrary: acc s)
  case Nil
  then show ?case by simp
next
  case (Cons p ps)
  obtain i sy where p: "p = (i, sy)" by (cases p)
  show ?case
  proof (cases "trade_params R i sy s")
    case (Pair r s1)
    show ?thesis
    proof (cases r)
      case (Inl e)
      with p Pair show ?thesis by simp
    next
      case (Inr t)
      have "signals_loop R (p # ps) (map signal_dict acc) s = signals_loop R ps (map signal_dict (acc @ [t])) s1"
        using p Pair Inr by simp
      also have "\<dots> = (case trades_loop R ps (acc @ [t]) s1 of
        (Inl e, s') \<Rightarrow> (Inl e, s')
      | (Inr ts, s') \<Rightarrow> (Inr (map signal_dict ts), s'))" by (rule Cons.IH)
      also have "trades_loop R ps (acc @ [t]) s1 = trades_loop R (p # ps) acc s"
        using p Pair Inr by simp
      finally show ?thesis .
    qed
  qed
qed

lemma trades_loop_succeeds:
  assumes "uniform_in_range R"
  shows "\<forall>p \<in> set ps. snd p \<in> set symbols \<Longrightarrow> \<exists>ts s'. trades_loop R ps acc s = (Inr ts, s')"
proof (induction ps arbitrary: acc s)
  case Nil
  then show ?case by simp
next
  case (Cons p ps)
  obtain i sy where p: "p = (i, sy)" by (cases p)
  with Cons.prems have "sy \<in> set symbols" by simp
  from trade_params_succeeds [OF assms this] obtain t s1
    where t: "trade_params R i sy s = (Inr t, s1)" by blast
  from Cons.prems have "\<forall>p \<in> set ps. snd p \<in> set symbols" by simp
  from Cons.IH [OF this] obtain ts s' where "trades_loop R ps (acc @ [t]) s1 = (Inr ts, s')" by blast
  with p t show ?case by simp
qed

lemma generate_signals_trades:
  "generate_mock_signals R s =
     (case generate_trades R s of
        (Inl e, s') \<Rightarrow> (Inl e, s')
      | (Inr ts, s') \<Rightarrow> (Inr (map signal_dict ts), s'))"
  unfolding generate_mock_signals_def generate_trades_def
  using signals_loop_trades_loop [of R _ "[]" s] by simp

lemma enumerate_symbols:
  "enumerate 0 symbols = [(0, ''ADA''), (1, ''BTC''), (2, ''ETH''), (3, ''SOL''), (4, ''LINK''), (5, ''AVAX'')]"
  by (simp add: symbols_def)

lemma generate_trades_Inr:
  assumes "generate_trades R s = (Inr ts, s')"
  shows "list_all2 (iteration R) (enumerate 0 symbols) ts"
  using trades_loop_Inr [OF assms [unfolded generate_trades_def]] by simp

lemma generate_trades_succeeds:
  assumes "uniform_in_range R"
  shows "\<exists>ts s'. generate_trades R s = (Inr ts, s')"
  unfolding generate_trades_def
  by (rule trades_loop_succeeds [OF assms]) (auto simp: in_set_enumerate_eq)

lemma iteration_fields:
  assumes "iteration R (i, sy) t"
  shows "t_index t = i" and "t_symbol t = sy"
    and "t_risk_amount t = 50" and "t_position_value t = 250"
    and "t_leverage t = min (8 + py_int (t_confidence t - 85)) 15"
    and "t_price t \<noteq> 0"
    and "t_qty t = (if sy = ''BTC'' \<or> sy = ''ETH'' then 250 / t_price t
                    else (250 * of_int (t_leverage t)) / t_price t)"
    and "t_stop_loss t = t_price t * (if t_action t = ''SELL'' then 1.03 else 0.97)"
    and "t_take_profit t = t_price t * (if t_action t = ''SELL'' then 0.94 else 1.06)"
    and "i = 0 \<Longrightarrow> t_action t = ''SELL''"
    and "i \<noteq> 0 \<Longrightarrow> \<exists>s. t_action t = fst (choice R [''BUY'', ''SELL''] s)"
    and "\<exists>b s. base_prices sy = Some b \<and> t_price t = b * (1 + fst (uniform R (- 0.02) 0.02 s))"
    and "\<exists>s. t_confidence t = fst (uniform R 85 98 s)"
proof -
  from assms obtain s s' where "trade_params R i sy s = (Inr t, s')"
    unfolding iteration_def by auto
  from trade_params_Inr [OF this] obtain b where b: "base_prices sy = Some b"
    and nz: "b * (1 + draw_u R s) \<noteq> 0"
    and t: "t = trade_of i sy (b * (1 + draw_u R s)) (draw_c R s)
           (if i = 0 then ''SELL'' else draw_a R s)" by blast
  show "t_index t = i" "t_symbol t = sy" "t_risk_amount t = 50" "t_position_value t = 250"
    "t_leverage t = min (8 + py_int (t_confidence t - 85)) 15"
    "t_stop_loss t = t_price t * (if t_action t = ''SELL'' then 1.03 else 0.97)"
    "t_take_profit t = t_price t * (if t_action t = ''SELL'' then 0.94 else 1.06)"
    "t_qty t = (if sy = ''BTC'' \<or> sy = ''ETH'' then 250 / t_price t
                    else (250 * of_int (t_leverage t)) / t_price t)"
    unfolding t trade_of_def by simp_all
  show "t_price t \<noteq> 0" unfolding t trade_of_def using nz by simp
  show "i = 0 \<Longrightarrow> t_action t = ''SELL''" unfolding t trade_of_def by simp
  show "i \<noteq> 0 \<Longrightarrow> \<exists>s. t_action t = fst (choice R [''BUY'', ''SELL''] s)"
    unfolding t trade_of_def draw_a_def by auto
  have "t_price t = b * (1 + fst (uniform R (- 0.02) 0.02 s))"
    unfolding t trade_of_def draw_u_def by simp
  with b show "\<exists>b s. base_prices sy = Some b \<and> t_price t = b * (1 + fst (uniform R (- 0.02) 0.02 s))"
    by blast
  have "t_confidence t = fst (uniform R 85 98 (snd (uniform R (- 0.02) 0.02 s)))"
    unfolding t trade_of_def draw_c_def by simp
  then show "\<exists>s. t_confidence t = fst (uniform R 85 98 s)" by blast
qed

lemma generate_trades_nth:
  assumes "generate_trades R s = (Inr ts, s')"
  shows "length ts = 6" and "k < 6 \<Longrightarrow> iteration R (k, symbols ! k) (ts ! k)"
proof -
  have l: "list_all2 (iteration R) (enumerate 0 symbols) ts"
    by (rule generate_trades_Inr [OF assms])
  have n: "length symbols = 6" by (simp add: symbols_def)
  from list_all2_lengthD [OF l] n show len: "length ts = 6" by simp
  assume k: "k < 6"
  with l n have "iteration R (enumerate 0 symbols ! k) (ts ! k)"
    by (simp add: list_all2_conv_all_nth)
  with k n show "iteration R (k, symbols ! k) (ts ! k)" by (simp add: nth_enumerate_eq)
qed

lemma generate_mock_signals_Inr:
  assumes "generate_mock_signals R s = (Inr sigs, s')"
  shows "\<exists>ts. generate_trades R s = (Inr ts, s') \<and> sigs = map signal_dict ts"
  using assms unfolding generate_signals_trades
  by (auto split: prod.splits sum.splits)

lemma generate_mock_signals_succeeds:
  assumes "uniform_in_range R"
  shows "\<exists>sigs s'. generate_mock_signals R s = (Inr sigs, s')"
proof -
  from generate_trades_succeeds [OF assms] obtain ts s' where "generate_trades R s = (Inr ts, s')"
    by blast
  then show ?thesis unfolding generate_signals_trades by simp
qed

lemma signal_dict_symbol: "dict_get (signal_dict t) ''symbol'' = Some (PyStr (t_symbol t))"
  by (simp add: signal_dict_def)

lemma list6:
  assumes "length xs = 6"
  shows "xs = [xs ! 0, xs ! 1, xs ! 2, xs ! 3, xs ! 4, xs ! 5]"
  using assms by (auto simp: list_eq_iff_nth_eq nth_Cons' less_Suc_eq numeral_eq_Suc)

lemma generate_trades_symbols:
  assumes "generate_trades R s = (Inr ts, s')"
  shows "map t_symbol ts = symbols" and "map t_index ts = [0..<6]"
proof -
  note len = generate_trades_nth(1) [OF assms]
  have n: "length symbols = 6" by (simp add: symbols_def)
  show "map t_symbol ts = symbols"
  proof (rule nth_equalityI)
    show "length (map t_symbol ts) = length symbols" using len n by simp
  next
    fix k assume "k < length (map t_symbol ts)"
    then have k: "k < 6" using len by simp
    from iteration_fields(2) [OF generate_trades_nth(2) [OF assms k]]
    show "map t_symbol ts ! k = symbols ! k" using k len by simp
  qed
  show "map t_index ts = [0..<6]"
  proof (rule nth_equalityI)
    show "length (map t_index ts) = length [0..<6]" using len by simp
  next
    fix k assume "k < length (map t_index ts)"
    then have k: "k < 6" using len by simp
    from iteration_fields(1) [OF generate_trades_nth(2) [OF assms k]]
    show "map t_index ts ! k = [0..<6] ! k" using k len by simp
  qed
qed

lemma fixed_rng_in_range:
  assumes "0 \<le> r" and "r \<le> 1"
  shows "uniform_in_range (fixed_rng r k)"
  unfolding uniform_in_range_def
proof (intro allI impI)
  fix a b :: real and s :: unit
  assume ab: "a \<le> b"
  have v: "fst (uniform (fixed_rng r k) a b s) = a + (b - a) * r"
    by (simp add: fixed_rng_def)
  from ab assms(1) have "0 \<le> (b - a) * r" by simp
  moreover from ab assms(2) have "(b - a) * r \<le> (b - a) * 1"
    by (intro mult_left_mono) simp_all
  ultimately show "a \<le> fst (uniform (fixed_rng r k) a b s) \<and> fst (uniform (fixed_rng r k) a b s) \<le> b"
    unfolding v by simp
qed

lemma signal_dict_top:
  "dict_get (signal_dict t) ''action'' = Some (PyStr (t_action t))"
  "dict_get (signal_dict t) ''confidence'' = Some (PyFloat (py_round (t_confidence t) 2))"
  "dict_get (signal_dict t) ''entry_price'' = Some (PyFloat (py_round (t_price t) 4))"
  "dict_get (signal_dict t) ''stop_loss'' = Some (PyFloat (py_round (t_stop_loss t) 4))"
  "dict_get (signal_dict t) ''take_profit'' = Some (PyFloat (py_round (t_take_profit t) 4))"
  "dict_get (signal_dict t) ''leverage'' = Some (PyInt (t_leverage t))"
  "dict_get (signal_dict t) ''expected_return'' = Some (PyFloat 6.0)"
  "dict_get (signal_dict t) ''risk_reward_ratio'' = Some (PyFloat 2.0)"
  "dict_get (signal_dict t) ''time_horizon'' = Some (PyStr ''4H'')"
  "dict_get (signal_dict t) ''strategy_basis'' = Some (PyStr ''Momentum Volume Analysis'')"
  "dict_get (signal_dict t) ''is_primary_trade'' = Some (PyBool (t_index t = 0))"
  "dict_get (signal_dict t) ''trade_label'' =
     Some (PyStr (if t_index t = 0 then ''YOUR TRADE'' else ''ALTERNATIVE''))"
  by (simp_all add: signal_dict_def)

lemma signal_dict_bybit:
  "dict_path (signal_dict t) [''bybit_settings'', ''symbol''] = Some (PyStr (t_symbol t @ ''USDT''))"
  "dict_path (signal_dict t) [''bybit_settings'', ''side''] = Some (PyStr (t_action t))"
  "dict_path (signal_dict t) [''bybit_settings'', ''orderType''] = Some (PyStr ''Market'')"
  "dict_path (signal_dict t) [''bybit_settings'', ''qty''] =
     Some (PyStr (py_str_float (py_round (t_qty t) 4)))"
  "dict_path (signal_dict t) [''bybit_settings'', ''leverage''] = Some (PyStr (py_str_int (t_leverage t)))"
  "dict_path (signal_dict t) [''bybit_settings'', ''stopLoss''] =
     Some (PyStr (py_str_float (py_round (t_stop_loss t) 4)))"
  "dict_path (signal_dict t) [''bybit_settings'', ''takeProfit''] =
     Some (PyStr (py_str_float (py_round (t_take_profit t) 4)))"
  "dict_path (signal_dict t) [''bybit_settings'', ''timeInForce''] = Some (PyStr ''GTC'')"
  "dict_path (signal_dict t) [''bybit_settings'', ''marginMode''] = Some (PyStr ''isolated'')"
  by (simp_all add: signal_dict_def)

lemma signal_dict_risk:
  "dict_path (signal_dict t) [''bybit_settings'', ''risk_management'', ''risk_amount_usd''] =
     Some (PyStr (py_str_float (t_risk_amount t)))"
  "dict_path (signal_dict t) [''bybit_settings'', ''risk_management'', ''risk_percentage''] =
     Some (PyStr (py_str_float ((t_risk_amount t / 500) * 100) @ ''%''))"
  "dict_path (signal_dict t) [''bybit_settings'', ''risk_management'', ''position_value_usd''] =
     Some (PyStr (py_str_float (py_round (t_position_value t * of_int (t_leverage t)) 2)))"
  "dict_path (signal_dict t) [''bybit_settings'', ''risk_management'', ''margin_required_usd''] =
     Some (PyStr (py_str_float (py_round (t_position_value t) 2)))"
  by (simp_all add: signal_dict_def)

lemma trade_params_state:
  assumes "trade_params R i sy s = (Inr t, s')"
  shows "s' = state_after R i s"
proof (cases "base_prices sy")
  case None
  with assms show ?thesis by (simp add: trade_params_def)
next
  case (Some b)
  have "snd (trade_params R i sy s) = state_after R i s"
    unfolding trade_params_eq [OF Some] by simp
  with assms show ?thesis by simp
qed

lemma trades_loop_states:
  "trades_loop R (enumerate n xs) acc (iter_state R n s0) = (Inr ts, s') \<Longrightarrow>
     \<exists>new. ts = acc @ new \<and> length new = length xs \<and>
       (\<forall>j<length xs. trade_params R (n + j) (xs ! j) (iter_state R (n + j) s0)
                         = (Inr (new ! j), iter_state R (Suc (n + j)) s0))"
proof (induction xs arbitrary: n acc)
  case Nil
  then show ?case by simp
next
  case (Cons x xs)
  show ?case
  proof (cases "trade_params R n x (iter_state R n s0)")
    case (Pair r s1)
    show ?thesis
    proof (cases r)
      case (Inl e)
      with Cons.prems Pair show ?thesis by simp
    next
      case (Inr t)
      have s1: "s1 = iter_state R (Suc n) s0"
        using trade_params_state [of R n x "iter_state R n s0" t s1] Pair Inr by simp
      from Cons.prems Pair Inr s1
      have "trades_loop R (enumerate (Suc n) xs) (acc @ [t]) (iter_state R (Suc n) s0) = (Inr ts, s')"
        by simp
      from Cons.IH [OF this] obtain new where
        new: "ts = (acc @ [t]) @ new" "length new = length xs"
          "\<forall>j<length xs. trade_params R (Suc n + j) (xs ! j) (iter_state R (Suc n + j) s0)
                         = (Inr (new ! j), iter_state R (Suc (Suc n + j)) s0)" by blast
      have "\<forall>j<length (x # xs). trade_params R (n + j) ((x # xs) ! j) (iter_state R (n + j) s0)
                         = (Inr ((t # new) ! j), iter_state R (Suc (n + j)) s0)"
      proof (intro allI impI)
        fix j assume j: "j < length (x # xs)"
        show "trade_params R (n + j) ((x # xs) ! j) (iter_state R (n + j) s0)
                         = (Inr ((t # new) ! j), iter_state R (Suc (n + j)) s0)"
        proof (cases j)
          case 0
          with Pair Inr s1 show ?thesis by simp
        next
          case (Suc j')
          with j have "j' < length xs" by simp
          with new(3) Suc show ?thesis by simp
        qed
      qed
      with new(1,2) have "ts = acc @ (t # new) \<and> length (t # new) = length (x # xs) \<and>
        (\<forall>j<length (x # xs). trade_params R (n + j) ((x # xs) ! j) (iter_state R (n + j) s0)
                         = (Inr ((t # new) ! j), iter_state R (Suc (n + j)) s0))" by simp
      then show ?thesis by blast
    qed
  qed
qed

lemma generate_trades_states:
  assumes "generate_trades R s = (Inr ts, s')" and "k < 6"
  shows "trade_params R k (symbols ! k) (iter_state R k s) = (Inr (ts ! k), iter_state R (Suc k) s)"
proof -
  have "trades_loop R (enumerate 0 symbols) [] (iter_state R 0 s) = (Inr ts, s')"
    using assms(1) by (simp add: generate_trades_def)
  from trades_loop_states [OF this] assms(2) show ?thesis
    by (auto simp: symbols_def)
qed

lemma generate_trades_trade_of:
  assumes "generate_trades R s = (Inr ts, s')" and "k < 6"
  shows "\<exists>b. base_prices (symbols ! k) = Some b \<and> b * (1 + draw_u R (iter_state R k s)) \<noteq> 0 \<and>
     ts ! k = trade_of k (symbols ! k) (b * (1 + draw_u R (iter_state R k s)))
                (draw_c R (iter_state R k s))
                (if k = 0 then ''SELL'' else draw_a R (iter_state R k s))"
  by (rule trade_params_Inr [OF generate_trades_states [OF assms]])

lemma generate_trades_action:
  assumes "generate_trades R s = (Inr ts, s')" and "k < 6"
  shows "t_action (ts ! k) = (if k = 0 then ''SELL'' else draw_a R (iter_state R k s))"
proof -
  from generate_trades_trade_of [OF assms] obtain b where
    "ts ! k = trade_of k (symbols ! k) (b * (1 + draw_u R (iter_state R k s)))
                (draw_c R (iter_state R k s))
                (if k = 0 then ''SELL'' else draw_a R (iter_state R k s))" by blast
  then show ?thesis by (simp add: trade_of_def)
qed

lemma generate_trades_index:
  assumes "generate_trades R s = (Inr ts, s')" and "k < 6"
  shows "t_index (ts ! k) = k"
  by (rule iteration_fields(1) [OF generate_trades_nth(2) [OF assms]])

lemma draw_a_in_seq:
  assumes "choice_in_seq R"
  shows "draw_a R s = ''BUY'' \<or> draw_a R s = ''SELL''"
proof -
  have "[''BUY'', ''SELL''] \<noteq> []" by simp
  with assms have "draw_a R s \<in> set [''BUY'', ''SELL'']"
    unfolding choice_in_seq_def draw_a_def by blast
  then show ?thesis by simp
qed

section \<open>The example sources\<close>

lemma base_prices_values:
  "base_prices ''ADA'' = Some 0.55" "base_prices ''BTC'' = Some 67000"
  "base_prices ''ETH'' = Some 3400" "base_prices ''SOL'' = Some 145"
  "base_prices ''LINK'' = Some 13.2" "base_prices ''AVAX'' = Some 35.5"
  by (simp_all add: base_prices_def)

lemma fixed_rng_draws:
  "draw_u (fixed_rng r k) s = - 0.02 + (0.02 - - 0.02) * r"
  "draw_c (fixed_rng r k) s = 85 + (98 - 85) * r"
  "draw_a (fixed_rng r k) s = [''BUY'', ''SELL''] ! (k mod 2)"
  "state_after (fixed_rng r k) i s = ()"
  by (simp_all add: draw_u_def draw_c_def draw_a_def fixed_rng_def numeral_2_eq_2)

lemma fixed_rng_trade_params:
  assumes "0 \<le> r" and "base_prices sy = Some b"
  shows "trade_params (fixed_rng r k) i sy s =
    (Inr (trade_of i sy (b * (1 + (- 0.02 + (0.02 - - 0.02) * r))) (85 + (98 - 85) * r)
            (if i = 0 then ''SELL'' else [''BUY'', ''SELL''] ! (k mod 2))), ())"
proof -
  have "0 < b" by (rule base_prices_pos [OF assms(2)])
  moreover have "0 < 1 + (- 0.02 + (0.02 - - 0.02) * r)" using assms(1) by simp
  ultimately have "b * (1 + (- 0.02 + (0.02 - - 0.02) * r)) \<noteq> 0" by simp
  then show ?thesis
    unfolding trade_params_eq [OF assms(2)] fixed_rng_draws by simp
qed

lemma fixed_rng_generate_trades:
  assumes "0 \<le> r"
  shows "generate_trades (fixed_rng r k) () = (Inr (fixed_trades r k), ())"
  unfolding generate_trades_def enumerate_symbols fixed_trades_def Let_def
  by (simp add: fixed_rng_trade_params [OF assms base_prices_values(1)]
      fixed_rng_trade_params [OF assms base_prices_values(2)]
      fixed_rng_trade_params [OF assms base_prices_values(3)]
      fixed_rng_trade_params [OF assms base_prices_values(4)]
      fixed_rng_trade_params [OF assms base_prices_values(5)]
      fixed_rng_trade_params [OF assms base_prices_values(6)])

lemma fixed_rng_generate_mock_signals:
  assumes "0 \<le> r"
  shows "generate_mock_signals (fixed_rng r k) () = (Inr (map signal_dict (fixed_trades r k)), ())"
  unfolding generate_signals_trades fixed_rng_generate_trades [OF assms] by simp

lemma fixed_rng_choice_in_seq: "choice_in_seq (fixed_rng r k)"
  unfolding choice_in_seq_def
proof (intro allI impI)
  fix xs :: "string list" and s :: unit
  assume "xs \<noteq> []"
  then have "k mod length xs < length xs" by simp
  then have "xs ! (k mod length xs) \<in> set xs" by (rule nth_mem)
  then show "fst (choice (fixed_rng r k) xs s) \<in> set xs" by (simp add: fixed_rng_def)
qed

lemma py_int_nonneg: "0 \<le> x \<Longrightarrow> py_int x = \<lfloor>x\<rfloor>"
  by (simp add: py_int_def)

lemma leverage_bounds:
  assumes "85 \<le> c" and "c \<le> 98"
  shows "8 \<le> min (8 + \<lfloor>c - 85\<rfloor>) 15" and "min (8 + \<lfloor>c - 85\<rfloor>) 15 \<le> 15"
proof -
  from assms(1) have "0 \<le> \<lfloor>c - 85\<rfloor>" by simp
  then show "8 \<le> min (8 + \<lfloor>c - 85\<rfloor>) 15" by simp
  show "min (8 + \<lfloor>c - 85\<rfloor>) 15 \<le> 15" by simp
qed

lemma draw_c_bounds:
  assumes "uniform_in_range R"
  shows "85 \<le> draw_c R s \<and> draw_c R s \<le> 98"
proof -
  have "(85 :: real) \<le> 98" by simp
  with assms show ?thesis unfolding uniform_in_range_def draw_c_def by blast
qed

lemma generate_trades_leverage:
  assumes "generate_trades R s = (Inr ts, s')" and "k < 6"
  shows "t_confidence (ts ! k) = draw_c R (iter_state R k s)"
    and "t_leverage (ts ! k) = min (8 + py_int (draw_c R (iter_state R k s) - 85)) 15"
proof -
  from generate_trades_trade_of [OF assms] obtain b where
    t: "ts ! k = trade_of k (symbols ! k) (b * (1 + draw_u R (iter_state R k s)))
                (draw_c R (iter_state R k s))
                (if k = 0 then ''SELL'' else draw_a R (iter_state R k s))" by blast
  show "t_confidence (ts ! k) = draw_c R (iter_state R k s)"
    unfolding t by (simp add: trade_of_def)
  show "t_leverage (ts ! k) = min (8 + py_int (draw_c R (iter_state R k s) - 85)) 15"
    unfolding t by (simp add: trade_of_def)
qed

lemma generate_trades_set:
  assumes "generate_trades R s = (Inr ts, s')" and "t \<in> set ts"
  shows "\<exists>k<6. t = ts ! k \<and> iteration R (k, symbols ! k) t"
proof -
  from assms(2) obtain k where k: "k < length ts" "t = ts ! k"
    by (auto simp: in_set_conv_nth)
  with generate_trades_nth(1) [OF assms(1)] have "k < 6" by simp
  with generate_trades_nth(2) [OF assms(1) this] k(2) show ?thesis by auto
qed

lemma iteration_leverage_ge:
  assumes "uniform_in_range R" and "iteration R p t"
  shows "8 \<le> t_leverage t" and "0 < t_price t"
proof -
  obtain i sy where p: "p = (i, sy)" by (cases p)
  note it = assms(2) [unfolded p]
  from iteration_fields(13) [OF it] obtain s where c: "t_confidence t = fst (uniform R 85 98 s)"
    by blast
  have "(85 :: real) \<le> 98" by simp
  with assms(1) have "85 \<le> fst (uniform R 85 98 s)" "fst (uniform R 85 98 s) \<le> 98"
    unfolding uniform_in_range_def by blast+
  then have c': "85 \<le> t_confidence t" "t_confidence t \<le> 98" unfolding c by simp_all
  then have "py_int (t_confidence t - 85) = \<lfloor>t_confidence t - 85\<rfloor>"
    by (simp add: py_int_nonneg)
  with iteration_fields(5) [OF it] leverage_bounds(1) [OF c'] show "8 \<le> t_leverage t" by simp
  from iteration_fields(12) [OF it] obtain b s1 where
    b: "base_prices sy = Some b" "t_price t = b * (1 + fst (uniform R (- 0.02) 0.02 s1))" by blast
  have "(- 0.02 :: real) \<le> 0.02" by simp
  with assms(1) have "- 0.02 \<le> fst (uniform R (- 0.02) 0.02 s1)"
    unfolding uniform_in_range_def by blast
  then have "0 < 1 + fst (uniform R (- 0.02) 0.02 s1)" by simp
  with base_prices_pos [OF b(1)] show "0 < t_price t" unfolding b(2) by simp
qed

lemma fixed_trades_length: "length (fixed_trades r k) = 6"
  by (simp add: fixed_trades_def Let_def)

lemma round_half_even_cases:
  obtains "round_half_even x = \<lfloor>x\<rfloor>" and "x - of_int \<lfloor>x\<rfloor> \<le> 1 / 2"
  | "round_half_even x = \<lfloor>x\<rfloor> + 1" and "1 / 2 \<le> x - of_int \<lfloor>x\<rfloor>"
proof (cases "x - of_int \<lfloor>x\<rfloor> < 1 / 2")
  case True
  then have "round_half_even x = \<lfloor>x\<rfloor>" by (simp add: round_half_even_def Let_def)
  with True that(1) show ?thesis by simp
next
  case False
  note nl = this
  show ?thesis
  proof (cases "1 / 2 < x - of_int \<lfloor>x\<rfloor>")
    case True
    with nl have "round_half_even x = \<lfloor>x\<rfloor> + 1" by (simp add: round_half_even_def Let_def)
    with True that(2) show ?thesis by simp
  next
    case False
    with nl have eq: "x - of_int \<lfloor>x\<rfloor> = 1 / 2" by simp
    show ?thesis
    proof (cases "even \<lfloor>x\<rfloor>")
      case True
      with nl False have "round_half_even x = \<lfloor>x\<rfloor>" by (simp add: round_half_even_def Let_def)
      with eq that(1) show ?thesis by simp
    next
      case odd: False
      with nl False have "round_half_even x = \<lfloor>x\<rfloor> + 1" by (simp add: round_half_even_def Let_def)
      with eq that(2) show ?thesis by simp
    qed
  qed
qed

lemma round_half_even_bounds:
  "x - 1 / 2 \<le> of_int (round_half_even x) \<and> of_int (round_half_even x) \<le> x + 1 / 2"
proof -
  have f: "of_int \<lfloor>x\<rfloor> \<le> x" "x < of_int \<lfloor>x\<rfloor> + 1" by linarith+
  show ?thesis
  proof (cases x rule: round_half_even_cases)
    case 1
    from 1(1) have "real_of_int (round_half_even x) = of_int \<lfloor>x\<rfloor>" by simp
    with 1(2) f show ?thesis by linarith
  next
    case 2
    from 2(1) have "real_of_int (round_half_even x) = of_int \<lfloor>x\<rfloor> + 1" by simp
    with 2(2) f show ?thesis by linarith
  qed
qed

lemma py_round_bounds:
  shows "x - 1 / (2 * 10 ^ n) \<le> py_round x n" and "py_round x n \<le> x + 1 / (2 * 10 ^ n)"
proof -
  have p: "(0::real) < 10 ^ n" by simp
  from round_half_even_bounds [of "x * 10 ^ n"]
  have "(x * 10 ^ n - 1 / 2) / 10 ^ n \<le> of_int (round_half_even (x * 10 ^ n)) / 10 ^ n"
    using p by (simp add: divide_right_mono)
  then show "x - 1 / (2 * 10 ^ n) \<le> py_round x n"
    unfolding py_round_def using p by (simp add: diff_divide_distrib)
  from round_half_even_bounds [of "x * 10 ^ n"]
  have "of_int (round_half_even (x * 10 ^ n)) / 10 ^ n \<le> (x * 10 ^ n + 1 / 2) / 10 ^ n"
    using p by (simp add: divide_right_mono)
  then show "py_round x n \<le> x + 1 / (2 * 10 ^ n)"
    unfolding py_round_def using p by (simp add: add_divide_distrib)
qed

lemma py_round_less:
  assumes "x + 1 / 10 ^ n < y"
  shows "py_round x n < py_round y n"
proof -
  have h: "1 / (2 * 10 ^ n) + 1 / (2 * 10 ^ n) = 1 / (10 ^ n :: real)" by simp
  have "py_round x n \<le> x + 1 / (2 * 10 ^ n)" by (rule py_round_bounds)
  also have "\<dots> < y - 1 / (2 * 10 ^ n)" using assms h by linarith
  also have "\<dots> \<le> py_round y n" by (rule py_round_bounds)
  finally show ?thesis .
qed

lemma base_prices_ge: "base_prices sy = Some b \<Longrightarrow> 1 / 2 < b"
  by (auto simp add: base_prices_def split: if_splits)

lemma iteration_price_ge:
  assumes "uniform_in_range R" and "iteration R p t"
  shows "2 / 5 < t_price t"
proof -
  obtain i sy where p: "p = (i, sy)" by (cases p)
  note it = assms(2) [unfolded p]
  from iteration_fields(12) [OF it] obtain b s1 where
    b: "base_prices sy = Some b" "t_price t = b * (1 + fst (uniform R (- 0.02) 0.02 s1))" by blast
  have "(- 0.02 :: real) \<le> 0.02" by simp
  with assms(1) have "- 0.02 \<le> fst (uniform R (- 0.02) 0.02 s1)"
    unfolding uniform_in_range_def by blast
  then have u: "49 / 50 \<le> 1 + fst (uniform R (- 0.02) 0.02 s1)" by simp
  have b2: "1 / 2 < b" by (rule base_prices_ge [OF b(1)])
  have "2 / 5 < (1 / 2) * (49 / 50 :: real)" by simp
  also have "\<dots> \<le> b * (49 / 50)" using b2 by simp
  also have "\<dots> \<le> b * (1 + fst (uniform R (- 0.02) 0.02 s1))"
    using u b2 by (intro mult_left_mono) simp_all
  finally show ?thesis unfolding b(2) .
qed

lemma bracket_sell:
  assumes "2 / 5 < (p::real)"
  shows "py_round p 4 < py_round (p * 1.03) 4" and "py_round (p * 0.94) 4 < py_round p 4"
proof -
  show "py_round p 4 < py_round (p * 1.03) 4" using assms by (intro py_round_less) simp
  show "py_round (p * 0.94) 4 < py_round p 4" using assms by (intro py_round_less) simp
qed

lemma bracket_buy:
  assumes "2 / 5 < (p::real)"
  shows "py_round (p * 0.97) 4 < py_round p 4" and "py_round p 4 < py_round (p * 1.06) 4"
proof -
  show "py_round (p * 0.97) 4 < py_round p 4" using assms by (intro py_round_less) simp
  show "py_round p 4 < py_round (p * 1.06) 4" using assms by (intro py_round_less) simp
qed

lemma field_values_structure:
  assumes "generate_mock_signals R s = (Inr sigs, s')"
  shows "field_values ''symbol'' sigs = map (\<lambda>sy. Some (PyStr sy)) symbols"
    and "field_values ''is_primary_trade'' sigs = map (\<lambda>i. Some (PyBool (i = 0))) [0..<6]"
    and "field_values ''trade_label'' sigs =
           map (\<lambda>i. Some (PyStr (if i = 0 then ''YOUR TRADE'' else ''ALTERNATIVE''))) [0..<6]"
proof -
  from generate_mock_signals_Inr [OF assms] obtain ts where
    ts: "generate_trades R s = (Inr ts, s')" and sigs: "sigs = map signal_dict ts" by blast
  note sy = generate_trades_symbols(1) [OF ts, symmetric]
  note ix = generate_trades_symbols(2) [OF ts, symmetric]
  show "field_values ''symbol'' sigs = map (\<lambda>sy. Some (PyStr sy)) symbols"
    unfolding sy sigs field_values_def by (simp add: signal_dict_symbol)
  show "field_values ''is_primary_trade'' sigs = map (\<lambda>i. Some (PyBool (i = 0))) [0..<6]"
    unfolding ix sigs field_values_def by (simp add: signal_dict_top(11))
  show "field_values ''trade_label'' sigs =
           map (\<lambda>i. Some (PyStr (if i = 0 then ''YOUR TRADE'' else ''ALTERNATIVE''))) [0..<6]"
    unfolding ix sigs field_values_def by (simp add: signal_dict_top(12))
qed

lemma fixed_trades_entry_prices:
  "field_values ''entry_price'' (map signal_dict (fixed_trades r k)) =
     map (\<lambda>b. Some (PyFloat (py_round (b * (1 + (- 0.02 + (0.02 - - 0.02) * r))) 4)))
       [0.55, 67000, 3400, 145, 13.2, 35.5]"
  by (simp add: field_values_def fixed_trades_def Let_def signal_dict_top(3) trade_of_def)

lemma py_round_btc_example:
  "py_round 67000 4 = 67000" "py_round 69010 4 = 69010" "py_round 62980 4 = 62980"
  by (simp_all add: py_round_def round_half_even_def)

lemma py_str_float_btc_example:
  "py_str_float (py_round (250 / 67000) 4) = ''0.0037''"
  "py_str_float 69010 = ''69010.0''"
  "py_str_float 62980 = ''62980.0''"
  by (simp_all add: py_round_def round_half_even_def py_str_float_def str_nat.simps
      frac_digits.simps digit_char_def Let_def)

lemma generate_mock_signals_set:
  assumes "generate_mock_signals R s = (Inr sigs, s')" and "d \<in> set sigs"
  shows "\<exists>t k. d = signal_dict t \<and> iteration R (k, symbols ! k) t"
proof -
  from generate_mock_signals_Inr [OF assms(1)] obtain ts where
    ts: "generate_trades R s = (Inr ts, s')" and sigs: "sigs = map signal_dict ts" by blast
  from assms(2) sigs obtain t where t: "t \<in> set ts" "d = signal_dict t" by auto
  from generate_trades_set [OF ts t(1)] t(2) show ?thesis by blast
qed

lemma py_str_constants:
  "py_str_float 50 = ''50.0''" "py_str_float ((50 / 500) * 100) @ ''%'' = ''10.0%''"
  by (simp_all add: py_str_float_def str_nat.simps frac_digits.simps digit_char_def Let_def)

lemma fixed_signals_mem:
  "k < 6 \<Longrightarrow> map signal_dict (fixed_trades r c) ! k \<in> set (map signal_dict (fixed_trades r c))"
  by (rule nth_mem) (simp add: fixed_trades_length)

lemma broken_rng_fails: "generate_mock_signals broken_rng () = (Inl ZeroDivisionError, ())"
proof -
  have u: "draw_u broken_rng () = - 1" by (simp add: draw_u_def broken_rng_def)
  have "trade_params broken_rng 0 ''ADA'' () = (Inl ZeroDivisionError, ())"
    unfolding trade_params_eq [OF base_prices_values(1)] u by simp
  then show ?thesis
    unfolding generate_mock_signals_def enumerate_symbols by simp
qed

section \<open>Claims\<close>

text \<open>
  C1. Whatever the random source and its state, a list that \<open>generate_mock_signals\<close>
  returns has exactly six dictionaries whose \<^verbatim>\<open>symbol\<close> fields are ADA, BTC, ETH, SOL,
  LINK, AVAX in this order; and with a source whose \<^verbatim>\<open>uniform\<close> stays between its
  bounds the function does return a list (no exception is raised).
\<close>

theorem six_signals_in_symbol_order:
  "(\<forall>sigs s'. generate_mock_signals R s = (Inr sigs, s') \<longrightarrow>
      length sigs = 6 \<and>
      map (\<lambda>d. dict_get d ''symbol'') sigs =
        map (\<lambda>sy. Some (PyStr sy)) [''ADA'', ''BTC'', ''ETH'', ''SOL'', ''LINK'', ''AVAX'']) \<and>
   (uniform_in_range R \<longrightarrow> (\<exists>sigs s'. generate_mock_signals R s = (Inr sigs, s')))"
proof (intro conjI allI impI)
  fix sigs s'
  assume "generate_mock_signals R s = (Inr sigs, s')"
  from generate_mock_signals_Inr [OF this] obtain ts where
    ts: "generate_trades R s = (Inr ts, s')" and sigs: "sigs = map signal_dict ts" by blast
  show "length sigs = 6" using generate_trades_nth(1) [OF ts] sigs by simp
  have "map (\<lambda>d. dict_get d ''symbol'') sigs = map (\<lambda>sy. Some (PyStr sy)) (map t_symbol ts)"
    unfolding sigs by (simp add: signal_dict_symbol)
  also have "map t_symbol ts = [''ADA'', ''BTC'', ''ETH'', ''SOL'', ''LINK'', ''AVAX'']"
    using generate_trades_symbols(1) [OF ts] by (simp add: symbols_def)
  finally show "map (\<lambda>d. dict_get d ''symbol'') sigs =
        map (\<lambda>sy. Some (PyStr sy)) [''ADA'', ''BTC'', ''ETH'', ''SOL'', ''LINK'', ''AVAX'']" .
next
  assume "uniform_in_range R"
  then show "\<exists>sigs s'. generate_mock_signals R s = (Inr sigs, s')"
    by (rule generate_mock_signals_succeeds)
qed

text \<open>The source that always draws the midpoint returns such a list.\<close>

theorem six_signals_in_symbol_order_witness:
  "uniform_in_range (fixed_rng (1 / 2) 0) \<and>
   (\<exists>sigs s'. generate_mock_signals (fixed_rng (1 / 2) 0) () = (Inr sigs, s') \<and>
      length sigs = 6 \<and>
      map (\<lambda>d. dict_get d ''symbol'') sigs =
        map (\<lambda>sy. Some (PyStr sy)) [''ADA'', ''BTC'', ''ETH'', ''SOL'', ''LINK'', ''AVAX''])"
proof -
  have u: "uniform_in_range (fixed_rng (1 / 2) 0)"
    by (rule fixed_rng_in_range) simp_all
  note inst = six_signals_in_symbol_order [of "fixed_rng (1 / 2) 0" "()"]
  from inst u obtain sigs s' where g: "generate_mock_signals (fixed_rng (1 / 2) 0) () = (Inr sigs, s')"
    by blast
  with inst have "length sigs = 6 \<and>
      map (\<lambda>d. dict_get d ''symbol'') sigs =
        map (\<lambda>sy. Some (PyStr sy)) [''ADA'', ''BTC'', ''ETH'', ''SOL'', ''LINK'', ''AVAX'']" by blast
  with u g show ?thesis by blast
qed

text \<open>
  C2. In a returned list the signal at index 0, and no other, is marked primary: its
  \<^verbatim>\<open>is_primary_trade\<close> is true, its \<^verbatim>\<open>trade_label\<close> is YOUR TRADE and its action is
  SELL. Every other signal has \<^verbatim>\<open>is_primary_trade\<close> false, the label ALTERNATIVE, and
  as action the very value that \<^verbatim>\<open>random.choice(['BUY', 'SELL'])\<close> returned in its
  iteration, which is BUY or SELL whenever \<^verbatim>\<open>choice\<close> returns an element of its
  argument. The distribution of that value is the library's.
\<close>

theorem primary_is_first_and_sell:
  assumes "generate_mock_signals R s = (Inr sigs, s')"
  shows "length sigs = 6 \<and>
    dict_get (sigs ! 0) ''is_primary_trade'' = Some (PyBool True) \<and>
    dict_get (sigs ! 0) ''trade_label'' = Some (PyStr ''YOUR TRADE'') \<and>
    dict_get (sigs ! 0) ''action'' = Some (PyStr ''SELL'') \<and>
    (\<forall>k. 0 < k \<and> k < 6 \<longrightarrow>
       dict_get (sigs ! k) ''is_primary_trade'' = Some (PyBool False) \<and>
       dict_get (sigs ! k) ''trade_label'' = Some (PyStr ''ALTERNATIVE'') \<and>
       dict_get (sigs ! k) ''action'' = Some (PyStr (draw_a R (iter_state R k s))) \<and>
       (choice_in_seq R \<longrightarrow>
          dict_get (sigs ! k) ''action'' = Some (PyStr ''BUY'') \<or>
          dict_get (sigs ! k) ''action'' = Some (PyStr ''SELL''))) \<and>
    length (filter (\<lambda>d. dict_get d ''is_primary_trade'' = Some (PyBool True)) sigs) = 1"
proof -
  from generate_mock_signals_Inr [OF assms] obtain ts where
    ts: "generate_trades R s = (Inr ts, s')" and sigs: "sigs = map signal_dict ts" by blast
  note len = generate_trades_nth(1) [OF ts]
  have nth: "sigs ! k = signal_dict (ts ! k)" if "k < 6" for k
    using that len sigs by simp
  have prim: "dict_get (sigs ! k) ''is_primary_trade'' = Some (PyBool (k = 0))" if "k < 6" for k
    using generate_trades_index [OF ts that] by (simp add: nth [OF that] signal_dict_top)
  have lab: "dict_get (sigs ! k) ''trade_label'' =
      Some (PyStr (if k = 0 then ''YOUR TRADE'' else ''ALTERNATIVE''))" if "k < 6" for k
    using generate_trades_index [OF ts that] by (simp only: nth [OF that] signal_dict_top)
  have act: "dict_get (sigs ! k) ''action'' =
      Some (PyStr (if k = 0 then ''SELL'' else draw_a R (iter_state R k s)))" if "k < 6" for k
    using generate_trades_action [OF ts that] by (simp only: nth [OF that] signal_dict_top)
  have alt: "dict_get (sigs ! k) ''is_primary_trade'' = Some (PyBool False) \<and>
       dict_get (sigs ! k) ''trade_label'' = Some (PyStr ''ALTERNATIVE'') \<and>
       dict_get (sigs ! k) ''action'' = Some (PyStr (draw_a R (iter_state R k s))) \<and>
       (choice_in_seq R \<longrightarrow>
          dict_get (sigs ! k) ''action'' = Some (PyStr ''BUY'') \<or>
          dict_get (sigs ! k) ''action'' = Some (PyStr ''SELL''))" if "0 < k \<and> k < 6" for k
  proof -
    from that have k: "k < 6" and k0: "k \<noteq> 0" by simp_all
    have a: "dict_get (sigs ! k) ''action'' = Some (PyStr (draw_a R (iter_state R k s)))"
      using act [OF k] k0 by simp
    have "dict_get (sigs ! k) ''action'' = Some (PyStr ''BUY'') \<or>
          dict_get (sigs ! k) ''action'' = Some (PyStr ''SELL'')" if "choice_in_seq R"
      using draw_a_in_seq [OF that, of "iter_state R k s"] unfolding a by auto
    with a prim [OF k] lab [OF k] k0 show ?thesis by simp
  qed
  have six: "sigs = [sigs ! 0, sigs ! 1, sigs ! 2, sigs ! 3, sigs ! 4, sigs ! 5]"
    by (rule list6) (simp add: sigs len)
  have "length (filter (\<lambda>d. dict_get d ''is_primary_trade'' = Some (PyBool True)) sigs) = 1"
    by (subst six) (simp add: prim)
  moreover have "length sigs = 6" using len sigs by simp
  moreover have "dict_get (sigs ! 0) ''is_primary_trade'' = Some (PyBool True)"
    using prim [of 0] by simp
  moreover have "dict_get (sigs ! 0) ''trade_label'' = Some (PyStr ''YOUR TRADE'')"
    using lab [of 0] by simp
  moreover have "dict_get (sigs ! 0) ''action'' = Some (PyStr ''SELL'')"
    using act [of 0] by simp
  moreover note alt
  ultimately show ?thesis by blast
qed

text \<open>The midpoint source whose \<^verbatim>\<open>choice\<close> takes the second element, at indices 0 and 3.\<close>

theorem primary_is_first_and_sell_witness:
  "generate_mock_signals (fixed_rng (1 / 2) 1) () =
     (Inr (map signal_dict (fixed_trades (1 / 2) 1)), ()) \<and>
   choice_in_seq (fixed_rng (1 / 2) 1) \<and>
   length (map signal_dict (fixed_trades (1 / 2) 1)) = 6 \<and>
   dict_get (map signal_dict (fixed_trades (1 / 2) 1) ! 0) ''is_primary_trade'' = Some (PyBool True) \<and>
   dict_get (map signal_dict (fixed_trades (1 / 2) 1) ! 0) ''trade_label'' = Some (PyStr ''YOUR TRADE'') \<and>
   dict_get (map signal_dict (fixed_trades (1 / 2) 1) ! 0) ''action'' = Some (PyStr ''SELL'') \<and>
   dict_get (map signal_dict (fixed_trades (1 / 2) 1) ! 3) ''is_primary_trade'' = Some (PyBool False) \<and>
   dict_get (map signal_dict (fixed_trades (1 / 2) 1) ! 3) ''trade_label'' = Some (PyStr ''ALTERNATIVE'') \<and>
   dict_get (map signal_dict (fixed_trades (1 / 2) 1) ! 3) ''action'' = Some (PyStr ''SELL'') \<and>
   length (filter (\<lambda>d. dict_get d ''is_primary_trade'' = Some (PyBool True))
             (map signal_dict (fixed_trades (1 / 2) 1))) = 1"
proof -
  have g: "generate_mock_signals (fixed_rng (1 / 2) 1) () =
     (Inr (map signal_dict (fixed_trades (1 / 2) 1)), ())"
    by (rule fixed_rng_generate_mock_signals) simp
  have a: "draw_a (fixed_rng (1 / 2) 1) (iter_state (fixed_rng (1 / 2) 1) 3 ()) = ''SELL''"
    by (simp add: fixed_rng_draws)
  have k: "(0::nat) < 3 \<and> (3::nat) < 6" by simp
  note inst = primary_is_first_and_sell [OF g]
  from inst k have alt: "dict_get (map signal_dict (fixed_trades (1 / 2) 1) ! 3) ''is_primary_trade'' = Some (PyBool False) \<and>
   dict_get (map signal_dict (fixed_trades (1 / 2) 1) ! 3) ''trade_label'' = Some (PyStr ''ALTERNATIVE'') \<and>
   dict_get (map signal_dict (fixed_trades (1 / 2) 1) ! 3) ''action'' =
      Some (PyStr (draw_a (fixed_rng (1 / 2) 1) (iter_state (fixed_rng (1 / 2) 1) 3 ())))"
    by blast
  note alt' = alt [unfolded a]
  from inst g alt' fixed_rng_choice_in_seq [of "1 / 2" 1] show ?thesis by blast
qed

text \<open>
  C3. In a returned list, take the signal at any index \<open>k\<close> and the confidence
  drawn in its iteration. If that draw lies in \<open>[85, 98)\<close>, the \<^verbatim>\<open>leverage\<close> field
  is the integer \<open>min (8 + \<lfloor>confidence - 85\<rfloor>) 15\<close>, which lies between 8 and 15;
  the execution block carries the same integer as a string.
\<close>

theorem leverage_from_confidence:
  assumes "generate_mock_signals R s = (Inr sigs, s')" and "k < 6"
    and "85 \<le> draw_c R (iter_state R k s)" and "draw_c R (iter_state R k s) < 98"
  shows "\<exists>l. l = min (8 + \<lfloor>draw_c R (iter_state R k s) - 85\<rfloor>) 15 \<and>
           dict_get (sigs ! k) ''confidence'' = Some (PyFloat (py_round (draw_c R (iter_state R k s)) 2)) \<and>
           dict_get (sigs ! k) ''leverage'' = Some (PyInt l) \<and>
           dict_path (sigs ! k) [''bybit_settings'', ''leverage''] = Some (PyStr (py_str_int l)) \<and>
           8 \<le> l \<and> l \<le> 15"
proof -
  from generate_mock_signals_Inr [OF assms(1)] obtain ts where
    ts: "generate_trades R s = (Inr ts, s')" and sigs: "sigs = map signal_dict ts" by blast
  have nth: "sigs ! k = signal_dict (ts ! k)"
    using generate_trades_nth(1) [OF ts] assms(2) sigs by simp
  let ?c = "draw_c R (iter_state R k s)"
  from assms(3) have "py_int (?c - 85) = \<lfloor>?c - 85\<rfloor>" by (simp add: py_int_nonneg)
  with generate_trades_leverage(2) [OF ts assms(2)]
  have lev: "t_leverage (ts ! k) = min (8 + \<lfloor>?c - 85\<rfloor>) 15" by simp
  have "dict_get (sigs ! k) ''confidence'' = Some (PyFloat (py_round ?c 2))"
    unfolding nth signal_dict_top generate_trades_leverage(1) [OF ts assms(2)] ..
  moreover have "dict_get (sigs ! k) ''leverage'' = Some (PyInt (min (8 + \<lfloor>?c - 85\<rfloor>) 15))"
    unfolding nth signal_dict_top lev ..
  moreover have "dict_path (sigs ! k) [''bybit_settings'', ''leverage''] =
      Some (PyStr (py_str_int (min (8 + \<lfloor>?c - 85\<rfloor>) 15)))"
    unfolding nth signal_dict_bybit lev ..
  moreover from assms(3,4) have "?c \<le> 98" by simp
  note leverage_bounds [OF assms(3) this]
  ultimately show ?thesis by blast
qed

text \<open>
  The source drawing at three quarters of each range: the confidence is 94.75, so
  \<open>8 + 9\<close> is capped at 15.
\<close>

theorem leverage_from_confidence_witness:
  "generate_mock_signals (fixed_rng (3 / 4) 1) () =
     (Inr (map signal_dict (fixed_trades (3 / 4) 1)), ()) \<and>
   (4::nat) < 6 \<and>
   85 \<le> draw_c (fixed_rng (3 / 4) 1) (iter_state (fixed_rng (3 / 4) 1) 4 ()) \<and>
   draw_c (fixed_rng (3 / 4) 1) (iter_state (fixed_rng (3 / 4) 1) 4 ()) < 98 \<and>
   dict_get (map signal_dict (fixed_trades (3 / 4) 1) ! 4) ''leverage'' = Some (PyInt 15) \<and>
   dict_path (map signal_dict (fixed_trades (3 / 4) 1) ! 4) [''bybit_settings'', ''leverage''] =
     Some (PyStr (py_str_int 15))"
proof -
  have g: "generate_mock_signals (fixed_rng (3 / 4) 1) () =
     (Inr (map signal_dict (fixed_trades (3 / 4) 1)), ())"
    by (rule fixed_rng_generate_mock_signals) simp
  have k: "(4::nat) < 6" by simp
  have c: "draw_c (fixed_rng (3 / 4) 1) (iter_state (fixed_rng (3 / 4) 1) 4 ()) = 379 / 4"
    by (simp add: fixed_rng_draws)
  have lo: "85 \<le> draw_c (fixed_rng (3 / 4) 1) (iter_state (fixed_rng (3 / 4) 1) 4 ())"
    and hi: "draw_c (fixed_rng (3 / 4) 1) (iter_state (fixed_rng (3 / 4) 1) 4 ()) < 98"
    unfolding c by simp_all
  have l: "min (8 + \<lfloor>379 / 4 - 85 :: real\<rfloor>) 15 = 15" by simp
  from leverage_from_confidence [OF g k lo hi]
  have "dict_get (map signal_dict (fixed_trades (3 / 4) 1) ! 4) ''leverage'' = Some (PyInt 15) \<and>
   dict_path (map signal_dict (fixed_trades (3 / 4) 1) ! 4) [''bybit_settings'', ''leverage''] =
     Some (PyStr (py_str_int 15))"
    unfolding c l by blast
  with g k lo hi show ?thesis by blast
qed

text \<open>
  C4. A returned list is \<open>signal_dict\<close> mapped over the locals of the six iterations.
  In each of them \<^verbatim>\<open>position_value\<close> is 250 and the price is not 0; for BTC and ETH the
  unrounded quantity is \<open>250 / price\<close>, with no leverage factor, and for ADA, SOL, LINK
  and AVAX it is \<open>(250 * leverage) / price\<close>, whatever the random source. With a source
  whose \<^verbatim>\<open>uniform\<close> stays between its bounds the two formulas give different values.
  The dictionary shows the quantity rounded to four decimals, as a string.
\<close>

theorem quantity_asymmetry:
  assumes "generate_mock_signals R s = (Inr sigs, s')"
  shows "\<exists>ts. generate_trades R s = (Inr ts, s') \<and> sigs = map signal_dict ts \<and>
     map t_symbol ts = [''ADA'', ''BTC'', ''ETH'', ''SOL'', ''LINK'', ''AVAX''] \<and>
     (\<forall>t \<in> set ts.
        t_position_value t = 250 \<and> t_price t \<noteq> 0 \<and>
        (t_symbol t = ''BTC'' \<or> t_symbol t = ''ETH'' \<longrightarrow> t_qty t = 250 / t_price t) \<and>
        (t_symbol t = ''ADA'' \<or> t_symbol t = ''SOL'' \<or> t_symbol t = ''LINK'' \<or> t_symbol t = ''AVAX'' \<longrightarrow>
           t_qty t = (250 * of_int (t_leverage t)) / t_price t) \<and>
        (uniform_in_range R \<longrightarrow> 250 / t_price t \<noteq> (250 * of_int (t_leverage t)) / t_price t) \<and>
        dict_get (signal_dict t) ''leverage'' = Some (PyInt (t_leverage t)) \<and>
        dict_path (signal_dict t) [''bybit_settings'', ''qty''] =
          Some (PyStr (py_str_float (py_round (t_qty t) 4))))"
proof -
  from generate_mock_signals_Inr [OF assms] obtain ts where
    ts: "generate_trades R s = (Inr ts, s')" and sigs: "sigs = map signal_dict ts" by blast
  have syms: "map t_symbol ts = [''ADA'', ''BTC'', ''ETH'', ''SOL'', ''LINK'', ''AVAX'']"
    using generate_trades_symbols(1) [OF ts] by (simp add: symbols_def)
  have each: "t_position_value t = 250 \<and> t_price t \<noteq> 0 \<and>
        (t_symbol t = ''BTC'' \<or> t_symbol t = ''ETH'' \<longrightarrow> t_qty t = 250 / t_price t) \<and>
        (t_symbol t = ''ADA'' \<or> t_symbol t = ''SOL'' \<or> t_symbol t = ''LINK'' \<or> t_symbol t = ''AVAX'' \<longrightarrow>
           t_qty t = (250 * of_int (t_leverage t)) / t_price t) \<and>
        (uniform_in_range R \<longrightarrow> 250 / t_price t \<noteq> (250 * of_int (t_leverage t)) / t_price t) \<and>
        dict_get (signal_dict t) ''leverage'' = Some (PyInt (t_leverage t)) \<and>
        dict_path (signal_dict t) [''bybit_settings'', ''qty''] =
          Some (PyStr (py_str_float (py_round (t_qty t) 4)))" if "t \<in> set ts" for t
  proof -
    from generate_trades_set [OF ts that] obtain k where
      it: "iteration R (k, symbols ! k) t" by blast
    note f = iteration_fields [OF it]
    have sy: "t_symbol t = symbols ! k" by (rule f(2))
    have q: "t_qty t = (if t_symbol t = ''BTC'' \<or> t_symbol t = ''ETH'' then 250 / t_price t
                    else (250 * of_int (t_leverage t)) / t_price t)"
      unfolding sy by (rule f(7))
    have q1: "t_qty t = 250 / t_price t" if "t_symbol t = ''BTC'' \<or> t_symbol t = ''ETH''"
      using q that by simp
    have q2: "t_qty t = (250 * of_int (t_leverage t)) / t_price t"
      if "t_symbol t = ''ADA'' \<or> t_symbol t = ''SOL'' \<or> t_symbol t = ''LINK'' \<or> t_symbol t = ''AVAX''"
    proof -
      from that have "\<not> (t_symbol t = ''BTC'' \<or> t_symbol t = ''ETH'')" by auto
      with q show ?thesis by simp
    qed
    have ne: "250 / t_price t \<noteq> (250 * of_int (t_leverage t)) / t_price t" if "uniform_in_range R"
    proof -
      from iteration_leverage_ge [OF that it] have "8 \<le> t_leverage t" "0 < t_price t" by simp_all
      then show ?thesis by simp
    qed
    from f(4) f(6) q1 q2 ne signal_dict_top(6) [of t] signal_dict_bybit(4) [of t]
    show ?thesis by blast
  qed
  then have "\<forall>t \<in> set ts.
        t_position_value t = 250 \<and> t_price t \<noteq> 0 \<and>
        (t_symbol t = ''BTC'' \<or> t_symbol t = ''ETH'' \<longrightarrow> t_qty t = 250 / t_price t) \<and>
        (t_symbol t = ''ADA'' \<or> t_symbol t = ''SOL'' \<or> t_symbol t = ''LINK'' \<or> t_symbol t = ''AVAX'' \<longrightarrow>
           t_qty t = (250 * of_int (t_leverage t)) / t_price t) \<and>
        (uniform_in_range R \<longrightarrow> 250 / t_price t \<noteq> (250 * of_int (t_leverage t)) / t_price t) \<and>
        dict_get (signal_dict t) ''leverage'' = Some (PyInt (t_leverage t)) \<and>
        dict_path (signal_dict t) [''bybit_settings'', ''qty''] =
          Some (PyStr (py_str_float (py_round (t_qty t) 4)))" by (intro ballI)
  with ts sigs syms show ?thesis by (intro exI [of _ ts] conjI)
qed

text \<open>
  The source drawing at three quarters of each range: BTC at price 67670 without the
  leverage factor, SOL with leverage 15.
\<close>

theorem quantity_asymmetry_witness:
  "generate_mock_signals (fixed_rng (3 / 4) 1) () =
     (Inr (map signal_dict (fixed_trades (3 / 4) 1)), ()) \<and>
   uniform_in_range (fixed_rng (3 / 4) 1) \<and>
   fixed_trades (3 / 4) 1 ! 1 \<in> set (fixed_trades (3 / 4) 1) \<and>
   t_symbol (fixed_trades (3 / 4) 1 ! 1) = ''BTC'' \<and>
   t_price (fixed_trades (3 / 4) 1 ! 1) = 67670 \<and>
   t_qty (fixed_trades (3 / 4) 1 ! 1) = 250 / t_price (fixed_trades (3 / 4) 1 ! 1) \<and>
   250 / t_price (fixed_trades (3 / 4) 1 ! 1) \<noteq>
     (250 * of_int (t_leverage (fixed_trades (3 / 4) 1 ! 1))) / t_price (fixed_trades (3 / 4) 1 ! 1) \<and>
   fixed_trades (3 / 4) 1 ! 3 \<in> set (fixed_trades (3 / 4) 1) \<and>
   t_symbol (fixed_trades (3 / 4) 1 ! 3) = ''SOL'' \<and>
   t_leverage (fixed_trades (3 / 4) 1 ! 3) = 15 \<and>
   t_qty (fixed_trades (3 / 4) 1 ! 3) =
     (250 * of_int (t_leverage (fixed_trades (3 / 4) 1 ! 3))) / t_price (fixed_trades (3 / 4) 1 ! 3)"
proof -
  have g: "generate_mock_signals (fixed_rng (3 / 4) 1) () =
     (Inr (map signal_dict (fixed_trades (3 / 4) 1)), ())"
    by (rule fixed_rng_generate_mock_signals) simp
  have u: "uniform_in_range (fixed_rng (3 / 4) 1)"
    by (rule fixed_rng_in_range) simp_all
  have gt: "generate_trades (fixed_rng (3 / 4) 1) () = (Inr (fixed_trades (3 / 4) 1), ())"
    by (rule fixed_rng_generate_trades) simp
  have m1: "fixed_trades (3 / 4) 1 ! 1 \<in> set (fixed_trades (3 / 4) 1)"
    and m3: "fixed_trades (3 / 4) 1 ! 3 \<in> set (fixed_trades (3 / 4) 1)"
    by (rule nth_mem, simp add: fixed_trades_length)+
  have s1: "t_symbol (fixed_trades (3 / 4) 1 ! 1) = ''BTC''"
    and p1: "t_price (fixed_trades (3 / 4) 1 ! 1) = 67670"
    and s3: "t_symbol (fixed_trades (3 / 4) 1 ! 3) = ''SOL''"
    by (simp_all add: fixed_trades_def Let_def trade_of_def)
  have l3: "t_leverage (fixed_trades (3 / 4) 1 ! 3) = 15"
    by (simp add: fixed_trades_def Let_def trade_of_def py_int_def)
  from quantity_asymmetry [OF g] gt have all: "\<forall>t \<in> set (fixed_trades (3 / 4) 1).
        t_position_value t = 250 \<and> t_price t \<noteq> 0 \<and>
        (t_symbol t = ''BTC'' \<or> t_symbol t = ''ETH'' \<longrightarrow> t_qty t = 250 / t_price t) \<and>
        (t_symbol t = ''ADA'' \<or> t_symbol t = ''SOL'' \<or> t_symbol t = ''LINK'' \<or> t_symbol t = ''AVAX'' \<longrightarrow>
           t_qty t = (250 * of_int (t_leverage t)) / t_price t) \<and>
        (uniform_in_range (fixed_rng (3 / 4) 1) \<longrightarrow>
           250 / t_price t \<noteq> (250 * of_int (t_leverage t)) / t_price t) \<and>
        dict_get (signal_dict t) ''leverage'' = Some (PyInt (t_leverage t)) \<and>
        dict_path (signal_dict t) [''bybit_settings'', ''qty''] =
          Some (PyStr (py_str_float (py_round (t_qty t) 4)))"
    by auto
  from bspec [OF all m1] s1 u
  have q1: "t_qty (fixed_trades (3 / 4) 1 ! 1) = 250 / t_price (fixed_trades (3 / 4) 1 ! 1)"
    and n1: "250 / t_price (fixed_trades (3 / 4) 1 ! 1) \<noteq>
     (250 * of_int (t_leverage (fixed_trades (3 / 4) 1 ! 1))) / t_price (fixed_trades (3 / 4) 1 ! 1)"
    by blast+
  from bspec [OF all m3] s3
  have q3: "t_qty (fixed_trades (3 / 4) 1 ! 3) =
     (250 * of_int (t_leverage (fixed_trades (3 / 4) 1 ! 3))) / t_price (fixed_trades (3 / 4) 1 ! 3)"
    by blast
  from g u m1 s1 p1 q1 n1 m3 s3 l3 q3 show ?thesis by (intro conjI)
qed

text \<open>
  C5. In every iteration of a run that returns, the stop loss and the take profit are
  the price times a fixed multiplier chosen by the action: 1.03 and 0.94 for SELL, 0.97
  and 1.06 for BUY. The dictionary shows price, stop loss and take profit rounded to
  four decimals; with a source whose \<^verbatim>\<open>uniform\<close> stays between its bounds the rounded
  fields bracket \<^verbatim>\<open>entry_price\<close> strictly: \<open>stop_loss > entry_price > take_profit\<close> for
  SELL and \<open>stop_loss < entry_price < take_profit\<close> for BUY.
\<close>

theorem stops_bracket_entry_price:
  assumes "generate_mock_signals R s = (Inr sigs, s')"
  shows "\<exists>ts. generate_trades R s = (Inr ts, s') \<and> sigs = map signal_dict ts \<and>
     (\<forall>t \<in> set ts.
        (t_action t = ''SELL'' \<longrightarrow>
           t_stop_loss t = t_price t * 1.03 \<and> t_take_profit t = t_price t * 0.94) \<and>
        (t_action t = ''BUY'' \<longrightarrow>
           t_stop_loss t = t_price t * 0.97 \<and> t_take_profit t = t_price t * 1.06) \<and>
        dict_get (signal_dict t) ''action'' = Some (PyStr (t_action t)) \<and>
        dict_get (signal_dict t) ''entry_price'' = Some (PyFloat (py_round (t_price t) 4)) \<and>
        dict_get (signal_dict t) ''stop_loss'' = Some (PyFloat (py_round (t_stop_loss t) 4)) \<and>
        dict_get (signal_dict t) ''take_profit'' = Some (PyFloat (py_round (t_take_profit t) 4)) \<and>
        (uniform_in_range R \<longrightarrow>
           (t_action t = ''SELL'' \<longrightarrow>
              py_round (t_stop_loss t) 4 > py_round (t_price t) 4 \<and>
              py_round (t_price t) 4 > py_round (t_take_profit t) 4) \<and>
           (t_action t = ''BUY'' \<longrightarrow>
              py_round (t_stop_loss t) 4 < py_round (t_price t) 4 \<and>
              py_round (t_price t) 4 < py_round (t_take_profit t) 4)))"
proof -
  from generate_mock_signals_Inr [OF assms] obtain ts where
    ts: "generate_trades R s = (Inr ts, s')" and sigs: "sigs = map signal_dict ts" by blast
  have each: "(t_action t = ''SELL'' \<longrightarrow>
           t_stop_loss t = t_price t * 1.03 \<and> t_take_profit t = t_price t * 0.94) \<and>
        (t_action t = ''BUY'' \<longrightarrow>
           t_stop_loss t = t_price t * 0.97 \<and> t_take_profit t = t_price t * 1.06) \<and>
        dict_get (signal_dict t) ''action'' = Some (PyStr (t_action t)) \<and>
        dict_get (signal_dict t) ''entry_price'' = Some (PyFloat (py_round (t_price t) 4)) \<and>
        dict_get (signal_dict t) ''stop_loss'' = Some (PyFloat (py_round (t_stop_loss t) 4)) \<and>
        dict_get (signal_dict t) ''take_profit'' = Some (PyFloat (py_round (t_take_profit t) 4)) \<and>
        (uniform_in_range R \<longrightarrow>
           (t_action t = ''SELL'' \<longrightarrow>
              py_round (t_stop_loss t) 4 > py_round (t_price t) 4 \<and>
              py_round (t_price t) 4 > py_round (t_take_profit t) 4) \<and>
           (t_action t = ''BUY'' \<longrightarrow>
              py_round (t_stop_loss t) 4 < py_round (t_price t) 4 \<and>
              py_round (t_price t) 4 < py_round (t_take_profit t) 4))" if "t \<in> set ts" for t
  proof -
    from generate_trades_set [OF ts that] obtain k where
      it: "iteration R (k, symbols ! k) t" by blast
    note f = iteration_fields [OF it]
    have sell: "t_stop_loss t = t_price t * 1.03 \<and> t_take_profit t = t_price t * 0.94"
      if "t_action t = ''SELL''"
      using f(8,9) that by simp
    have buy: "t_stop_loss t = t_price t * 0.97 \<and> t_take_profit t = t_price t * 1.06"
      if "t_action t = ''BUY''"
      using f(8,9) that by simp
    have br: "(t_action t = ''SELL'' \<longrightarrow>
              py_round (t_stop_loss t) 4 > py_round (t_price t) 4 \<and>
              py_round (t_price t) 4 > py_round (t_take_profit t) 4) \<and>
           (t_action t = ''BUY'' \<longrightarrow>
              py_round (t_stop_loss t) 4 < py_round (t_price t) 4 \<and>
              py_round (t_price t) 4 < py_round (t_take_profit t) 4)" if "uniform_in_range R"
    proof -
      note p = iteration_price_ge [OF that it]
      show ?thesis
      proof (intro conjI impI)
        assume a: "t_action t = ''SELL''"
        show "py_round (t_stop_loss t) 4 > py_round (t_price t) 4"
          unfolding conjunct1 [OF sell [OF a]] conjunct2 [OF sell [OF a]] by (rule bracket_sell(1) [OF p])
        show "py_round (t_price t) 4 > py_round (t_take_profit t) 4"
          unfolding conjunct1 [OF sell [OF a]] conjunct2 [OF sell [OF a]] by (rule bracket_sell(2) [OF p])
      next
        assume a: "t_action t = ''BUY''"
        show "py_round (t_stop_loss t) 4 < py_round (t_price t) 4"
          unfolding conjunct1 [OF buy [OF a]] conjunct2 [OF buy [OF a]] by (rule bracket_buy(1) [OF p])
        show "py_round (t_price t) 4 < py_round (t_take_profit t) 4"
          unfolding conjunct1 [OF buy [OF a]] conjunct2 [OF buy [OF a]] by (rule bracket_buy(2) [OF p])
      qed
    qed
    from sell buy br signal_dict_top(1,3,4,5) [of t] show ?thesis by blast
  qed
  then have "\<forall>t \<in> set ts.
        (t_action t = ''SELL'' \<longrightarrow>
           t_stop_loss t = t_price t * 1.03 \<and> t_take_profit t = t_price t * 0.94) \<and>
        (t_action t = ''BUY'' \<longrightarrow>
           t_stop_loss t = t_price t * 0.97 \<and> t_take_profit t = t_price t * 1.06) \<and>
        dict_get (signal_dict t) ''action'' = Some (PyStr (t_action t)) \<and>
        dict_get (signal_dict t) ''entry_price'' = Some (PyFloat (py_round (t_price t) 4)) \<and>
        dict_get (signal_dict t) ''stop_loss'' = Some (PyFloat (py_round (t_stop_loss t) 4)) \<and>
        dict_get (signal_dict t) ''take_profit'' = Some (PyFloat (py_round (t_take_profit t) 4)) \<and>
        (uniform_in_range R \<longrightarrow>
           (t_action t = ''SELL'' \<longrightarrow>
              py_round (t_stop_loss t) 4 > py_round (t_price t) 4 \<and>
              py_round (t_price t) 4 > py_round (t_take_profit t) 4) \<and>
           (t_action t = ''BUY'' \<longrightarrow>
              py_round (t_stop_loss t) 4 < py_round (t_price t) 4 \<and>
              py_round (t_price t) 4 < py_round (t_take_profit t) 4))" by (intro ballI)
  with ts sigs show ?thesis by (intro exI [of _ ts] conjI)
qed

text \<open>
  BTC at price 67670: a SELL with stop 69700.1 and target 63609.8 from the source whose
  \<^verbatim>\<open>choice\<close> takes the second element, a BUY from the one that takes the first.
\<close>

theorem stops_bracket_entry_price_witness:
  "generate_mock_signals (fixed_rng (3 / 4) 1) () =
     (Inr (map signal_dict (fixed_trades (3 / 4) 1)), ()) \<and>
   uniform_in_range (fixed_rng (3 / 4) 1) \<and>
   fixed_trades (3 / 4) 1 ! 1 \<in> set (fixed_trades (3 / 4) 1) \<and>
   t_action (fixed_trades (3 / 4) 1 ! 1) = ''SELL'' \<and>
   t_stop_loss (fixed_trades (3 / 4) 1 ! 1) = t_price (fixed_trades (3 / 4) 1 ! 1) * 1.03 \<and>
   t_take_profit (fixed_trades (3 / 4) 1 ! 1) = t_price (fixed_trades (3 / 4) 1 ! 1) * 0.94 \<and>
   py_round (t_stop_loss (fixed_trades (3 / 4) 1 ! 1)) 4 > py_round (t_price (fixed_trades (3 / 4) 1 ! 1)) 4 \<and>
   py_round (t_price (fixed_trades (3 / 4) 1 ! 1)) 4 > py_round (t_take_profit (fixed_trades (3 / 4) 1 ! 1)) 4 \<and>
   py_round (t_price (fixed_trades (3 / 4) 1 ! 1)) 4 = 67670 \<and>
   py_round (t_stop_loss (fixed_trades (3 / 4) 1 ! 1)) 4 = 69700.1 \<and>
   py_round (t_take_profit (fixed_trades (3 / 4) 1 ! 1)) 4 = 63609.8 \<and>
   generate_mock_signals (fixed_rng (3 / 4) 0) () =
     (Inr (map signal_dict (fixed_trades (3 / 4) 0)), ()) \<and>
   uniform_in_range (fixed_rng (3 / 4) 0) \<and>
   fixed_trades (3 / 4) 0 ! 1 \<in> set (fixed_trades (3 / 4) 0) \<and>
   t_action (fixed_trades (3 / 4) 0 ! 1) = ''BUY'' \<and>
   t_stop_loss (fixed_trades (3 / 4) 0 ! 1) = t_price (fixed_trades (3 / 4) 0 ! 1) * 0.97 \<and>
   t_take_profit (fixed_trades (3 / 4) 0 ! 1) = t_price (fixed_trades (3 / 4) 0 ! 1) * 1.06 \<and>
   py_round (t_stop_loss (fixed_trades (3 / 4) 0 ! 1)) 4 < py_round (t_price (fixed_trades (3 / 4) 0 ! 1)) 4 \<and>
   py_round (t_price (fixed_trades (3 / 4) 0 ! 1)) 4 < py_round (t_take_profit (fixed_trades (3 / 4) 0 ! 1)) 4"
proof -
  have g1: "generate_mock_signals (fixed_rng (3 / 4) 1) () =
     (Inr (map signal_dict (fixed_trades (3 / 4) 1)), ())"
    and g0: "generate_mock_signals (fixed_rng (3 / 4) 0) () =
     (Inr (map signal_dict (fixed_trades (3 / 4) 0)), ())"
    by (rule fixed_rng_generate_mock_signals, simp)+
  have u1: "uniform_in_range (fixed_rng (3 / 4) 1)" and u0: "uniform_in_range (fixed_rng (3 / 4) 0)"
    by (rule fixed_rng_in_range, simp, simp)+
  have gt1: "generate_trades (fixed_rng (3 / 4) 1) () = (Inr (fixed_trades (3 / 4) 1), ())"
    and gt0: "generate_trades (fixed_rng (3 / 4) 0) () = (Inr (fixed_trades (3 / 4) 0), ())"
    by (rule fixed_rng_generate_trades, simp)+
  have m1: "fixed_trades (3 / 4) 1 ! 1 \<in> set (fixed_trades (3 / 4) 1)"
    and m0: "fixed_trades (3 / 4) 0 ! 1 \<in> set (fixed_trades (3 / 4) 0)"
    by (rule nth_mem, simp add: fixed_trades_length)+
  have a1: "t_action (fixed_trades (3 / 4) 1 ! 1) = ''SELL''"
    and a0: "t_action (fixed_trades (3 / 4) 0 ! 1) = ''BUY''"
    by (simp_all add: fixed_trades_def Let_def trade_of_def)
  have v: "py_round (t_price (fixed_trades (3 / 4) 1 ! 1)) 4 = 67670"
    "py_round (t_stop_loss (fixed_trades (3 / 4) 1 ! 1)) 4 = 69700.1"
    "py_round (t_take_profit (fixed_trades (3 / 4) 1 ! 1)) 4 = 63609.8"
    by (simp_all add: fixed_trades_def Let_def trade_of_def py_round_def round_half_even_def)
  from stops_bracket_entry_price [OF g1] gt1 have "\<forall>t \<in> set (fixed_trades (3 / 4) 1).
        (t_action t = ''SELL'' \<longrightarrow>
           t_stop_loss t = t_price t * 1.03 \<and> t_take_profit t = t_price t * 0.94) \<and>
        (t_action t = ''BUY'' \<longrightarrow>
           t_stop_loss t = t_price t * 0.97 \<and> t_take_profit t = t_price t * 1.06) \<and>
        dict_get (signal_dict t) ''action'' = Some (PyStr (t_action t)) \<and>
        dict_get (signal_dict t) ''entry_price'' = Some (PyFloat (py_round (t_price t) 4)) \<and>
        dict_get (signal_dict t) ''stop_loss'' = Some (PyFloat (py_round (t_stop_loss t) 4)) \<and>
        dict_get (signal_dict t) ''take_profit'' = Some (PyFloat (py_round (t_take_profit t) 4)) \<and>
        (uniform_in_range (fixed_rng (3 / 4) 1) \<longrightarrow>
           (t_action t = ''SELL'' \<longrightarrow>
              py_round (t_stop_loss t) 4 > py_round (t_price t) 4 \<and>
              py_round (t_price t) 4 > py_round (t_take_profit t) 4) \<and>
           (t_action t = ''BUY'' \<longrightarrow>
              py_round (t_stop_loss t) 4 < py_round (t_price t) 4 \<and>
              py_round (t_price t) 4 < py_round (t_take_profit t) 4))" by auto
  from bspec [OF this m1] a1 u1
  have r1: "t_stop_loss (fixed_trades (3 / 4) 1 ! 1) = t_price (fixed_trades (3 / 4) 1 ! 1) * 1.03"
   "t_take_profit (fixed_trades (3 / 4) 1 ! 1) = t_price (fixed_trades (3 / 4) 1 ! 1) * 0.94"
   "py_round (t_stop_loss (fixed_trades (3 / 4) 1 ! 1)) 4 > py_round (t_price (fixed_trades (3 / 4) 1 ! 1)) 4"
   "py_round (t_price (fixed_trades (3 / 4) 1 ! 1)) 4 > py_round (t_take_profit (fixed_trades (3 / 4) 1 ! 1)) 4"
    by blast+
  from stops_bracket_entry_price [OF g0] gt0 have "\<forall>t \<in> set (fixed_trades (3 / 4) 0).
        (t_action t = ''SELL'' \<longrightarrow>
           t_stop_loss t = t_price t * 1.03 \<and> t_take_profit t = t_price t * 0.94) \<and>
        (t_action t = ''BUY'' \<longrightarrow>
           t_stop_loss t = t_price t * 0.97 \<and> t_take_profit t = t_price t * 1.06) \<and>
        dict_get (signal_dict t) ''action'' = Some (PyStr (t_action t)) \<and>
        dict_get (signal_dict t) ''entry_price'' = Some (PyFloat (py_round (t_price t) 4)) \<and>
        dict_get (signal_dict t) ''stop_loss'' = Some (PyFloat (py_round (t_stop_loss t) 4)) \<and>
        dict_get (signal_dict t) ''take_profit'' = Some (PyFloat (py_round (t_take_profit t) 4)) \<and>
        (uniform_in_range (fixed_rng (3 / 4) 0) \<longrightarrow>
           (t_action t = ''SELL'' \<longrightarrow>
              py_round (t_stop_loss t) 4 > py_round (t_price t) 4 \<and>
              py_round (t_price t) 4 > py_round (t_take_profit t) 4) \<and>
           (t_action t = ''BUY'' \<longrightarrow>
              py_round (t_stop_loss t) 4 < py_round (t_price t) 4 \<and>
              py_round (t_price t) 4 < py_round (t_take_profit t) 4))" by auto
  from bspec [OF this m0] a0 u0
  have r0: "t_stop_loss (fixed_trades (3 / 4) 0 ! 1) = t_price (fixed_trades (3 / 4) 0 ! 1) * 0.97"
   "t_take_profit (fixed_trades (3 / 4) 0 ! 1) = t_price (fixed_trades (3 / 4) 0 ! 1) * 1.06"
   "py_round (t_stop_loss (fixed_trades (3 / 4) 0 ! 1)) 4 < py_round (t_price (fixed_trades (3 / 4) 0 ! 1)) 4"
   "py_round (t_price (fixed_trades (3 / 4) 0 ! 1)) 4 < py_round (t_take_profit (fixed_trades (3 / 4) 0 ! 1)) 4"
    by blast+
  from g1 u1 m1 a1 r1 v g0 u0 m0 a0 r0 show ?thesis by (intro conjI)
qed

text \<open>
  C6, as stated, fails: two runs whose random sources differ in every draw (price
  perturbation, confidence and action) can return the same \<^verbatim>\<open>entry_price\<close> at all six
  positions. The second source perturbs each price by \<open>4e-11\<close> of its base, which the
  rounding to four decimals removes.
\<close>

theorem different_draws_same_entry_prices:
  "generate_mock_signals (fixed_rng (1 / 2) 0) () =
     (Inr (map signal_dict (fixed_trades (1 / 2) 0)), ()) \<and>
   generate_mock_signals (fixed_rng (500000001 / 1000000000) 1) () =
     (Inr (map signal_dict (fixed_trades (500000001 / 1000000000) 1)), ()) \<and>
   draw_u (fixed_rng (1 / 2) 0) () \<noteq> draw_u (fixed_rng (500000001 / 1000000000) 1) () \<and>
   draw_c (fixed_rng (1 / 2) 0) () \<noteq> draw_c (fixed_rng (500000001 / 1000000000) 1) () \<and>
   draw_a (fixed_rng (1 / 2) 0) () \<noteq> draw_a (fixed_rng (500000001 / 1000000000) 1) () \<and>
   field_values ''entry_price'' (map signal_dict (fixed_trades (1 / 2) 0)) =
     field_values ''entry_price'' (map signal_dict (fixed_trades (500000001 / 1000000000) 1))"
proof -
  have gA: "generate_mock_signals (fixed_rng (1 / 2) 0) () =
     (Inr (map signal_dict (fixed_trades (1 / 2) 0)), ())"
    by (rule fixed_rng_generate_mock_signals) simp
  have gB: "generate_mock_signals (fixed_rng (500000001 / 1000000000) 1) () =
     (Inr (map signal_dict (fixed_trades (500000001 / 1000000000) 1)), ())"
    by (rule fixed_rng_generate_mock_signals) simp
  have du: "draw_u (fixed_rng (1 / 2) 0) () \<noteq> draw_u (fixed_rng (500000001 / 1000000000) 1) ()"
    and dc: "draw_c (fixed_rng (1 / 2) 0) () \<noteq> draw_c (fixed_rng (500000001 / 1000000000) 1) ()"
    and da: "draw_a (fixed_rng (1 / 2) 0) () \<noteq> draw_a (fixed_rng (500000001 / 1000000000) 1) ()"
    by (simp_all add: fixed_rng_draws)
  have ep: "field_values ''entry_price'' (map signal_dict (fixed_trades (1 / 2) 0)) =
     field_values ''entry_price'' (map signal_dict (fixed_trades (500000001 / 1000000000) 1))"
    unfolding fixed_trades_entry_prices
    by (simp add: py_round_def round_half_even_def)
  from gA gB du dc da ep show ?thesis by (intro conjI)
qed

text \<open>
  C6, amended. Any two runs that return, whatever their random sources and states,
  agree position by position on \<^verbatim>\<open>symbol\<close>, \<^verbatim>\<open>is_primary_trade\<close> and \<^verbatim>\<open>trade_label\<close>.
  Nothing is claimed of their \<^verbatim>\<open>entry_price\<close> values, which may differ or coincide.
\<close>

theorem structure_independent_of_source:
  assumes "generate_mock_signals R s = (Inr sigs, s1)"
    and "generate_mock_signals R' s' = (Inr sigs', s1')"
  shows "field_values ''symbol'' sigs = field_values ''symbol'' sigs' \<and>
         field_values ''is_primary_trade'' sigs = field_values ''is_primary_trade'' sigs' \<and>
         field_values ''trade_label'' sigs = field_values ''trade_label'' sigs'"
  unfolding field_values_structure [OF assms(1)] field_values_structure [OF assms(2)]
  by simp

text \<open>
  Two sources that agree on the three structural fields and differ in \<^verbatim>\<open>entry_price\<close>.
\<close>

theorem structure_independent_of_source_witness:
  "generate_mock_signals (fixed_rng (1 / 2) 0) () =
     (Inr (map signal_dict (fixed_trades (1 / 2) 0)), ()) \<and>
   generate_mock_signals (fixed_rng (3 / 4) 1) () =
     (Inr (map signal_dict (fixed_trades (3 / 4) 1)), ()) \<and>
   field_values ''symbol'' (map signal_dict (fixed_trades (1 / 2) 0)) =
     field_values ''symbol'' (map signal_dict (fixed_trades (3 / 4) 1)) \<and>
   field_values ''is_primary_trade'' (map signal_dict (fixed_trades (1 / 2) 0)) =
     field_values ''is_primary_trade'' (map signal_dict (fixed_trades (3 / 4) 1)) \<and>
   field_values ''trade_label'' (map signal_dict (fixed_trades (1 / 2) 0)) =
     field_values ''trade_label'' (map signal_dict (fixed_trades (3 / 4) 1)) \<and>
   field_values ''entry_price'' (map signal_dict (fixed_trades (1 / 2) 0)) \<noteq>
     field_values ''entry_price'' (map signal_dict (fixed_trades (3 / 4) 1))"
proof -
  have gA: "generate_mock_signals (fixed_rng (1 / 2) 0) () =
     (Inr (map signal_dict (fixed_trades (1 / 2) 0)), ())"
    by (rule fixed_rng_generate_mock_signals) simp
  have gB: "generate_mock_signals (fixed_rng (3 / 4) 1) () =
     (Inr (map signal_dict (fixed_trades (3 / 4) 1)), ())"
    by (rule fixed_rng_generate_mock_signals) simp
  have ep: "field_values ''entry_price'' (map signal_dict (fixed_trades (1 / 2) 0)) \<noteq>
     field_values ''entry_price'' (map signal_dict (fixed_trades (3 / 4) 1))"
    unfolding fixed_trades_entry_prices
    by (simp add: py_round_def round_half_even_def)
  from gA gB structure_independent_of_source [OF gA gB] ep show ?thesis by (intro conjI) blast+
qed

text \<open>
  C7. In a run that returns, if the price draw of the BTC iteration (index 1) is 0, so
  that the factor is exactly 1 and the price 67000, and the action chosen there is SELL,
  then the BTC signal has \<^verbatim>\<open>entry_price\<close> 67000.0, \<^verbatim>\<open>stop_loss\<close> 69010.0 and
  \<^verbatim>\<open>take_profit\<close> 62980.0; its unrounded quantity is \<open>250 / 67000\<close>, within \<open>1e-6\<close> of
  0.003731, and the execution block shows it rounded to four decimals, '0.0037'.
\<close>

theorem btc_example:
  assumes "generate_mock_signals R s = (Inr sigs, s')"
    and "draw_u R (iter_state R 1 s) = 0"
    and "draw_a R (iter_state R 1 s) = ''SELL''"
  shows "dict_get (sigs ! 1) ''symbol'' = Some (PyStr ''BTC'') \<and>
    dict_get (sigs ! 1) ''action'' = Some (PyStr ''SELL'') \<and>
    dict_get (sigs ! 1) ''entry_price'' = Some (PyFloat 67000) \<and>
    dict_get (sigs ! 1) ''stop_loss'' = Some (PyFloat 69010) \<and>
    dict_get (sigs ! 1) ''take_profit'' = Some (PyFloat 62980) \<and>
    (\<exists>ts. generate_trades R s = (Inr ts, s') \<and> sigs = map signal_dict ts \<and>
          t_price (ts ! 1) = 67000 \<and> t_qty (ts ! 1) = 250 / 67000) \<and>
    \<bar>250 / 67000 - 0.003731\<bar> < (0.000001 :: real) \<and>
    dict_path (sigs ! 1) [''bybit_settings'', ''qty''] = Some (PyStr ''0.0037'') \<and>
    dict_path (sigs ! 1) [''bybit_settings'', ''stopLoss''] = Some (PyStr ''69010.0'') \<and>
    dict_path (sigs ! 1) [''bybit_settings'', ''takeProfit''] = Some (PyStr ''62980.0'')"
proof -
  from generate_mock_signals_Inr [OF assms(1)] obtain ts where
    ts: "generate_trades R s = (Inr ts, s')" and sigs: "sigs = map signal_dict ts" by blast
  have k: "(1::nat) < 6" by simp
  have nth: "sigs ! 1 = signal_dict (ts ! 1)"
    using generate_trades_nth(1) [OF ts] sigs by simp
  have sy: "symbols ! 1 = ''BTC''" by (simp add: symbols_def)
  from generate_trades_trade_of [OF ts k] obtain b where
    b: "base_prices (symbols ! 1) = Some b"
    and t: "ts ! 1 = trade_of 1 (symbols ! 1) (b * (1 + draw_u R (iter_state R 1 s)))
                (draw_c R (iter_state R 1 s))
                (if (1::nat) = 0 then ''SELL'' else draw_a R (iter_state R 1 s))" by blast
  from b have b': "b = 67000" unfolding sy base_prices_values by simp
  have t': "ts ! 1 = trade_of 1 ''BTC'' 67000 (draw_c R (iter_state R 1 s)) ''SELL''"
    unfolding t sy b' assms(2,3) by simp
  have f: "t_symbol (ts ! 1) = ''BTC''" "t_action (ts ! 1) = ''SELL''"
    "t_price (ts ! 1) = 67000" "t_stop_loss (ts ! 1) = 69010" "t_take_profit (ts ! 1) = 62980"
    "t_qty (ts ! 1) = 250 / 67000"
    unfolding t' by (simp_all add: trade_of_def)
  have "dict_get (sigs ! 1) ''symbol'' = Some (PyStr ''BTC'')"
    unfolding nth signal_dict_symbol f ..
  moreover have "dict_get (sigs ! 1) ''action'' = Some (PyStr ''SELL'')"
    unfolding nth signal_dict_top f ..
  moreover have "dict_get (sigs ! 1) ''entry_price'' = Some (PyFloat 67000)"
    unfolding nth signal_dict_top f py_round_btc_example ..
  moreover have "dict_get (sigs ! 1) ''stop_loss'' = Some (PyFloat 69010)"
    unfolding nth signal_dict_top f py_round_btc_example ..
  moreover have "dict_get (sigs ! 1) ''take_profit'' = Some (PyFloat 62980)"
    unfolding nth signal_dict_top f py_round_btc_example ..
  moreover have "\<exists>ts. generate_trades R s = (Inr ts, s') \<and> sigs = map signal_dict ts \<and>
          t_price (ts ! 1) = 67000 \<and> t_qty (ts ! 1) = 250 / 67000"
    using ts sigs f(3,6) by blast
  moreover have "\<bar>250 / 67000 - 0.003731\<bar> < (0.000001 :: real)" by simp
  moreover have "dict_path (sigs ! 1) [''bybit_settings'', ''qty''] = Some (PyStr ''0.0037'')"
    unfolding nth signal_dict_bybit f py_str_float_btc_example ..
  moreover have "dict_path (sigs ! 1) [''bybit_settings'', ''stopLoss''] = Some (PyStr ''69010.0'')"
    unfolding nth signal_dict_bybit f py_round_btc_example py_str_float_btc_example ..
  moreover have "dict_path (sigs ! 1) [''bybit_settings'', ''takeProfit''] = Some (PyStr ''62980.0'')"
    unfolding nth signal_dict_bybit f py_round_btc_example py_str_float_btc_example ..
  ultimately show ?thesis by (intro conjI)
qed

text \<open>
  The midpoint source whose \<^verbatim>\<open>choice\<close> takes the second element draws exactly this.
\<close>

theorem btc_example_witness:
  "generate_mock_signals (fixed_rng (1 / 2) 1) () =
     (Inr (map signal_dict (fixed_trades (1 / 2) 1)), ()) \<and>
   draw_u (fixed_rng (1 / 2) 1) (iter_state (fixed_rng (1 / 2) 1) 1 ()) = 0 \<and>
   draw_a (fixed_rng (1 / 2) 1) (iter_state (fixed_rng (1 / 2) 1) 1 ()) = ''SELL'' \<and>
   dict_get (map signal_dict (fixed_trades (1 / 2) 1) ! 1) ''symbol'' = Some (PyStr ''BTC'') \<and>
   dict_get (map signal_dict (fixed_trades (1 / 2) 1) ! 1) ''entry_price'' = Some (PyFloat 67000) \<and>
   dict_get (map signal_dict (fixed_trades (1 / 2) 1) ! 1) ''stop_loss'' = Some (PyFloat 69010) \<and>
   dict_get (map signal_dict (fixed_trades (1 / 2) 1) ! 1) ''take_profit'' = Some (PyFloat 62980) \<and>
   dict_path (map signal_dict (fixed_trades (1 / 2) 1) ! 1) [''bybit_settings'', ''qty''] =
     Some (PyStr ''0.0037'')"
proof -
  have g: "generate_mock_signals (fixed_rng (1 / 2) 1) () =
     (Inr (map signal_dict (fixed_trades (1 / 2) 1)), ())"
    by (rule fixed_rng_generate_mock_signals) simp
  have u: "draw_u (fixed_rng (1 / 2) 1) (iter_state (fixed_rng (1 / 2) 1) 1 ()) = 0"
    and a: "draw_a (fixed_rng (1 / 2) 1) (iter_state (fixed_rng (1 / 2) 1) 1 ()) = ''SELL''"
    by (simp_all add: fixed_rng_draws)
  from g u a btc_example [OF g u a] show ?thesis by (intro conjI) blast+
qed

text \<open>
  C8. In every dictionary of a returned list the top-level \<^verbatim>\<open>confidence\<close>,
  \<^verbatim>\<open>entry_price\<close>, \<^verbatim>\<open>stop_loss\<close> and \<^verbatim>\<open>take_profit\<close> are floats, the results of
  \<^verbatim>\<open>round\<close> to two and to four decimals, and \<^verbatim>\<open>leverage\<close> is an int; inside
  \<^verbatim>\<open>bybit_settings\<close> the fields \<^verbatim>\<open>qty\<close>, \<^verbatim>\<open>leverage\<close>, \<^verbatim>\<open>stopLoss\<close>, \<^verbatim>\<open>takeProfit\<close> and,
  under \<^verbatim>\<open>risk_management\<close>, \<^verbatim>\<open>risk_amount_usd\<close>, \<^verbatim>\<open>position_value_usd\<close>,
  \<^verbatim>\<open>margin_required_usd\<close> and \<^verbatim>\<open>risk_percentage\<close> are strings.
\<close>

theorem numbers_at_top_strings_in_bybit:
  assumes "generate_mock_signals R s = (Inr sigs, s')"
  shows "\<forall>d \<in> set sigs.
      is_number (dict_get d ''confidence'') \<and>
      is_number (dict_get d ''entry_price'') \<and>
      is_number (dict_get d ''stop_loss'') \<and>
      is_number (dict_get d ''take_profit'') \<and>
      is_number (dict_get d ''leverage'') \<and>
      (\<exists>c. dict_get d ''confidence'' = Some (PyFloat (py_round c 2))) \<and>
      (\<exists>p. dict_get d ''entry_price'' = Some (PyFloat (py_round p 4))) \<and>
      (\<exists>p. dict_get d ''stop_loss'' = Some (PyFloat (py_round p 4))) \<and>
      (\<exists>p. dict_get d ''take_profit'' = Some (PyFloat (py_round p 4))) \<and>
      (\<exists>l. dict_get d ''leverage'' = Some (PyInt l)) \<and>
      is_string (dict_path d [''bybit_settings'', ''qty'']) \<and>
      is_string (dict_path d [''bybit_settings'', ''leverage'']) \<and>
      is_string (dict_path d [''bybit_settings'', ''stopLoss'']) \<and>
      is_string (dict_path d [''bybit_settings'', ''takeProfit'']) \<and>
      is_string (dict_path d [''bybit_settings'', ''risk_management'', ''risk_amount_usd'']) \<and>
      is_string (dict_path d [''bybit_settings'', ''risk_management'', ''position_value_usd'']) \<and>
      is_string (dict_path d [''bybit_settings'', ''risk_management'', ''margin_required_usd'']) \<and>
      is_string (dict_path d [''bybit_settings'', ''risk_management'', ''risk_percentage''])"
proof
  fix d assume "d \<in> set sigs"
  from generate_mock_signals_set [OF assms this] obtain t where d: "d = signal_dict t" by blast
  show "is_number (dict_get d ''confidence'') \<and>
      is_number (dict_get d ''entry_price'') \<and>
      is_number (dict_get d ''stop_loss'') \<and>
      is_number (dict_get d ''take_profit'') \<and>
      is_number (dict_get d ''leverage'') \<and>
      (\<exists>c. dict_get d ''confidence'' = Some (PyFloat (py_round c 2))) \<and>
      (\<exists>p. dict_get d ''entry_price'' = Some (PyFloat (py_round p 4))) \<and>
      (\<exists>p. dict_get d ''stop_loss'' = Some (PyFloat (py_round p 4))) \<and>
      (\<exists>p. dict_get d ''take_profit'' = Some (PyFloat (py_round p 4))) \<and>
      (\<exists>l. dict_get d ''leverage'' = Some (PyInt l)) \<and>
      is_string (dict_path d [''bybit_settings'', ''qty'']) \<and>
      is_string (dict_path d [''bybit_settings'', ''leverage'']) \<and>
      is_string (dict_path d [''bybit_settings'', ''stopLoss'']) \<and>
      is_string (dict_path d [''bybit_settings'', ''takeProfit'']) \<and>
      is_string (dict_path d [''bybit_settings'', ''risk_management'', ''risk_amount_usd'']) \<and>
      is_string (dict_path d [''bybit_settings'', ''risk_management'', ''position_value_usd'']) \<and>
      is_string (dict_path d [''bybit_settings'', ''risk_management'', ''margin_required_usd'']) \<and>
      is_string (dict_path d [''bybit_settings'', ''risk_management'', ''risk_percentage''])"
    unfolding d signal_dict_top signal_dict_bybit signal_dict_risk
    by (intro conjI exI) simp_all
qed

text \<open>
  The ETH signal of the midpoint source.
\<close>

theorem numbers_at_top_strings_in_bybit_witness:
  "generate_mock_signals (fixed_rng (1 / 2) 1) () =
     (Inr (map signal_dict (fixed_trades (1 / 2) 1)), ()) \<and>
   map signal_dict (fixed_trades (1 / 2) 1) ! 2 \<in> set (map signal_dict (fixed_trades (1 / 2) 1)) \<and>
   is_number (dict_get (map signal_dict (fixed_trades (1 / 2) 1) ! 2) ''confidence'') \<and>
   is_number (dict_get (map signal_dict (fixed_trades (1 / 2) 1) ! 2) ''entry_price'') \<and>
   is_number (dict_get (map signal_dict (fixed_trades (1 / 2) 1) ! 2) ''stop_loss'') \<and>
   is_number (dict_get (map signal_dict (fixed_trades (1 / 2) 1) ! 2) ''take_profit'') \<and>
   is_number (dict_get (map signal_dict (fixed_trades (1 / 2) 1) ! 2) ''leverage'') \<and>
   is_string (dict_path (map signal_dict (fixed_trades (1 / 2) 1) ! 2) [''bybit_settings'', ''qty'']) \<and>
   is_string (dict_path (map signal_dict (fixed_trades (1 / 2) 1) ! 2) [''bybit_settings'', ''leverage'']) \<and>
   is_string (dict_path (map signal_dict (fixed_trades (1 / 2) 1) ! 2) [''bybit_settings'', ''stopLoss'']) \<and>
   is_string (dict_path (map signal_dict (fixed_trades (1 / 2) 1) ! 2) [''bybit_settings'', ''takeProfit'']) \<and>
   is_string (dict_path (map signal_dict (fixed_trades (1 / 2) 1) ! 2) [''bybit_settings'', ''risk_management'', ''risk_amount_usd'']) \<and>
   is_string (dict_path (map signal_dict (fixed_trades (1 / 2) 1) ! 2) [''bybit_settings'', ''risk_management'', ''position_value_usd'']) \<and>
   is_string (dict_path (map signal_dict (fixed_trades (1 / 2) 1) ! 2) [''bybit_settings'', ''risk_management'', ''margin_required_usd'']) \<and>
   is_string (dict_path (map signal_dict (fixed_trades (1 / 2) 1) ! 2) [''bybit_settings'', ''risk_management'', ''risk_percentage''])"
proof -
  have g: "generate_mock_signals (fixed_rng (1 / 2) 1) () =
     (Inr (map signal_dict (fixed_trades (1 / 2) 1)), ())"
    by (rule fixed_rng_generate_mock_signals) simp
  have m: "map signal_dict (fixed_trades (1 / 2) 1) ! 2 \<in> set (map signal_dict (fixed_trades (1 / 2) 1))"
    by (rule fixed_signals_mem) simp
  from g m bspec [OF numbers_at_top_strings_in_bybit [OF g] m] show ?thesis
    by (intro conjI) blast+
qed

text \<open>
  C9. The handler of \<^verbatim>\<open>/api/signals\<close> answers with the list the generator returned,
  unchanged, and leaves the log as it was; when the generator raises, whatever the
  exception, it answers with the empty list and appends one error record to the log.
\<close>

theorem handler_returns_signals_or_empty:
  "(generate_mock_signals R s = (Inr sigs, s') \<longrightarrow>
      get_trading_signals R (s, records) = (Jsonify (PyList sigs), s', records)) \<and>
   (generate_mock_signals R s = (Inl e, s') \<longrightarrow>
      get_trading_signals R (s, records) =
        (Jsonify (PyList []), s', records @ [LogError ''Error getting signals: '' e]))"
  by (simp add: get_trading_signals_def)

text \<open>
  Both paths are taken: the midpoint source returns a list, and the source whose
  \<^verbatim>\<open>uniform\<close> returns \<open>-1\<close> makes the first price 0, so that the division raises.
\<close>

theorem handler_returns_signals_or_empty_witness:
  "generate_mock_signals (fixed_rng (1 / 2) 1) () =
     (Inr (map signal_dict (fixed_trades (1 / 2) 1)), ()) \<and>
   get_trading_signals (fixed_rng (1 / 2) 1) ((), []) =
     (Jsonify (PyList (map signal_dict (fixed_trades (1 / 2) 1))), (), []) \<and>
   generate_mock_signals broken_rng () = (Inl ZeroDivisionError, ()) \<and>
   get_trading_signals broken_rng ((), []) =
     (Jsonify (PyList []), (), [LogError ''Error getting signals: '' ZeroDivisionError])"
proof -
  have g: "generate_mock_signals (fixed_rng (1 / 2) 1) () =
     (Inr (map signal_dict (fixed_trades (1 / 2) 1)), ())"
    by (rule fixed_rng_generate_mock_signals) simp
  note b = broken_rng_fails
  from handler_returns_signals_or_empty
    [of "fixed_rng (1 / 2) 1" "()" "map signal_dict (fixed_trades (1 / 2) 1)" "()" "[]"] g
  have h1: "get_trading_signals (fixed_rng (1 / 2) 1) ((), []) =
     (Jsonify (PyList (map signal_dict (fixed_trades (1 / 2) 1))), (), [])" by blast
  from handler_returns_signals_or_empty
    [of broken_rng "()" _ "()" "[]" ZeroDivisionError] b
  have h2: "get_trading_signals broken_rng ((), []) =
     (Jsonify (PyList []), (), [] @ [LogError ''Error getting signals: '' ZeroDivisionError])"
    by blast
  from g h1 b h2 show ?thesis by simp
qed

text \<open>
  C10. Every dictionary of a returned list carries the same constants:
  \<^verbatim>\<open>expected_return\<close> 6.0, \<^verbatim>\<open>risk_reward_ratio\<close> 2.0, \<^verbatim>\<open>time_horizon\<close> '4H',
  \<^verbatim>\<open>strategy_basis\<close> 'Momentum Volume Analysis', and in \<^verbatim>\<open>bybit_settings\<close> the symbol
  followed by USDT, \<^verbatim>\<open>orderType\<close> 'Market', \<^verbatim>\<open>timeInForce\<close> 'GTC', \<^verbatim>\<open>marginMode\<close>
  'isolated' and, under \<^verbatim>\<open>risk_management\<close>, \<^verbatim>\<open>risk_amount_usd\<close> '50.0' and
  \<^verbatim>\<open>risk_percentage\<close> '10.0%'.
\<close>

theorem constant_fields:
  assumes "generate_mock_signals R s = (Inr sigs, s')"
  shows "\<forall>d \<in> set sigs.
      dict_get d ''expected_return'' = Some (PyFloat 6.0) \<and>
      dict_get d ''risk_reward_ratio'' = Some (PyFloat 2.0) \<and>
      dict_get d ''time_horizon'' = Some (PyStr ''4H'') \<and>
      dict_get d ''strategy_basis'' = Some (PyStr ''Momentum Volume Analysis'') \<and>
      (\<exists>sy. dict_get d ''symbol'' = Some (PyStr sy) \<and>
            dict_path d [''bybit_settings'', ''symbol''] = Some (PyStr (sy @ ''USDT''))) \<and>
      dict_path d [''bybit_settings'', ''orderType''] = Some (PyStr ''Market'') \<and>
      dict_path d [''bybit_settings'', ''timeInForce''] = Some (PyStr ''GTC'') \<and>
      dict_path d [''bybit_settings'', ''marginMode''] = Some (PyStr ''isolated'') \<and>
      dict_path d [''bybit_settings'', ''risk_management'', ''risk_amount_usd''] =
        Some (PyStr ''50.0'') \<and>
      dict_path d [''bybit_settings'', ''risk_management'', ''risk_percentage''] =
        Some (PyStr ''10.0%'')"
proof
  fix d assume "d \<in> set sigs"
  from generate_mock_signals_set [OF assms this] obtain t k where d: "d = signal_dict t"
    and it: "iteration R (k, symbols ! k) t" by blast
  note ra = iteration_fields(3) [OF it]
  have sy: "\<exists>sy. dict_get d ''symbol'' = Some (PyStr sy) \<and>
            dict_path d [''bybit_settings'', ''symbol''] = Some (PyStr (sy @ ''USDT''))"
    unfolding d signal_dict_symbol signal_dict_bybit by blast
  have r1: "dict_path d [''bybit_settings'', ''risk_management'', ''risk_amount_usd''] =
        Some (PyStr ''50.0'')"
    unfolding d signal_dict_risk ra py_str_constants ..
  have r2: "dict_path d [''bybit_settings'', ''risk_management'', ''risk_percentage''] =
        Some (PyStr ''10.0%'')"
    unfolding d signal_dict_risk ra py_str_constants ..
  have c: "dict_get d ''expected_return'' = Some (PyFloat 6.0)"
      "dict_get d ''risk_reward_ratio'' = Some (PyFloat 2.0)"
      "dict_get d ''time_horizon'' = Some (PyStr ''4H'')"
      "dict_get d ''strategy_basis'' = Some (PyStr ''Momentum Volume Analysis'')"
      "dict_path d [''bybit_settings'', ''orderType''] = Some (PyStr ''Market'')"
      "dict_path d [''bybit_settings'', ''timeInForce''] = Some (PyStr ''GTC'')"
      "dict_path d [''bybit_settings'', ''marginMode''] = Some (PyStr ''isolated'')"
    unfolding d by (rule signal_dict_top signal_dict_bybit)+
  from c sy r1 r2 show "dict_get d ''expected_return'' = Some (PyFloat 6.0) \<and>
      dict_get d ''risk_reward_ratio'' = Some (PyFloat 2.0) \<and>
      dict_get d ''time_horizon'' = Some (PyStr ''4H'') \<and>
      dict_get d ''strategy_basis'' = Some (PyStr ''Momentum Volume Analysis'') \<and>
      (\<exists>sy. dict_get d ''symbol'' = Some (PyStr sy) \<and>
            dict_path d [''bybit_settings'', ''symbol''] = Some (PyStr (sy @ ''USDT''))) \<and>
      dict_path d [''bybit_settings'', ''orderType''] = Some (PyStr ''Market'') \<and>
      dict_path d [''bybit_settings'', ''timeInForce''] = Some (PyStr ''GTC'') \<and>
      dict_path d [''bybit_settings'', ''marginMode''] = Some (PyStr ''isolated'') \<and>
      dict_path d [''bybit_settings'', ''risk_management'', ''risk_amount_usd''] =
        Some (PyStr ''50.0'') \<and>
      dict_path d [''bybit_settings'', ''risk_management'', ''risk_percentage''] =
        Some (PyStr ''10.0%'')" by (intro conjI)
qed

text \<open>
  The LINK signal of the source drawing at three quarters of each range.
\<close>

theorem constant_fields_witness:
  "generate_mock_signals (fixed_rng (3 / 4) 0) () =
     (Inr (map signal_dict (fixed_trades (3 / 4) 0)), ()) \<and>
   map signal_dict (fixed_trades (3 / 4) 0) ! 4 \<in> set (map signal_dict (fixed_trades (3 / 4) 0)) \<and>
   dict_get (map signal_dict (fixed_trades (3 / 4) 0) ! 4) ''expected_return'' = Some (PyFloat 6.0) \<and>
   dict_get (map signal_dict (fixed_trades (3 / 4) 0) ! 4) ''risk_reward_ratio'' = Some (PyFloat 2.0) \<and>
   dict_get (map signal_dict (fixed_trades (3 / 4) 0) ! 4) ''time_horizon'' = Some (PyStr ''4H'') \<and>
   dict_get (map signal_dict (fixed_trades (3 / 4) 0) ! 4) ''strategy_basis'' = Some (PyStr ''Momentum Volume Analysis'') \<and>
   dict_get (map signal_dict (fixed_trades (3 / 4) 0) ! 4) ''symbol'' = Some (PyStr ''LINK'') \<and>
   dict_path (map signal_dict (fixed_trades (3 / 4) 0) ! 4) [''bybit_settings'', ''symbol''] = Some (PyStr ''LINKUSDT'') \<and>
   dict_path (map signal_dict (fixed_trades (3 / 4) 0) ! 4) [''bybit_settings'', ''orderType''] = Some (PyStr ''Market'') \<and>
   dict_path (map signal_dict (fixed_trades (3 / 4) 0) ! 4) [''bybit_settings'', ''timeInForce''] = Some (PyStr ''GTC'') \<and>
   dict_path (map signal_dict (fixed_trades (3 / 4) 0) ! 4) [''bybit_settings'', ''marginMode''] = Some (PyStr ''isolated'') \<and>
   dict_path (map signal_dict (fixed_trades (3 / 4) 0) ! 4) [''bybit_settings'', ''risk_management'', ''risk_amount_usd''] =
     Some (PyStr ''50.0'') \<and>
   dict_path (map signal_dict (fixed_trades (3 / 4) 0) ! 4) [''bybit_settings'', ''risk_management'', ''risk_percentage''] =
     Some (PyStr ''10.0%'')"
proof -
  have g: "generate_mock_signals (fixed_rng (3 / 4) 0) () =
     (Inr (map signal_dict (fixed_trades (3 / 4) 0)), ())"
    by (rule fixed_rng_generate_mock_signals) simp
  have m: "map signal_dict (fixed_trades (3 / 4) 0) ! 4 \<in> set (map signal_dict (fixed_trades (3 / 4) 0))"
    by (rule fixed_signals_mem) simp
  have sy: "dict_get (map signal_dict (fixed_trades (3 / 4) 0) ! 4) ''symbol'' = Some (PyStr ''LINK'')"
    by (simp add: fixed_trades_def Let_def signal_dict_symbol trade_of_def)
  note inst = bspec [OF constant_fields [OF g] m]
  from inst sy have bs: "dict_path (map signal_dict (fixed_trades (3 / 4) 0) ! 4) [''bybit_settings'', ''symbol''] = Some (PyStr ''LINKUSDT'')"
    by auto
  from g m inst sy bs show ?thesis by (intro conjI) blast+
qed

end
